theory Spec2Isabelle
  imports Complex_Main "HOL-Library.Word" "HOL-Library.Stream"
begin

unbundle bit_operations_syntax

section \<open>SENTINEL anti-cheat engine: data model (sentinel-types.ts)\<close>

text \<open>
  Conventions of the embedding.
  \<^item> A TypeScript \<open>number\<close> is a \<^typ>\<open>real\<close>: the arithmetic is exact, so rounding,
    infinities and NaN of IEEE doubles are not represented.
  \<^item> \<open>_pipelineToken\<close> is only ever read through \<open>& 0x1\<close>, which converts to a 32-bit
    integer first; it is a \<^typ>\<open>32 word\<close>.
  \<^item> A telemetry payload is a JavaScript object whose numeric fields are read by name and
    compared with \<open>undefined\<close>; it is a map from field names to numbers. The cast
    \<open>event.data as AimTelemetry\<close> checks nothing at run time, so one payload type serves
    the five telemetry interfaces. The fields that are not numbers (\<open>aimPath\<close>, \<open>weaponId\<close>,
    \<open>rawInputs\<close>, \<open>deviceType\<close>, \<open>interArrivalTimes\<close>) are read nowhere and are left out.
  \<^item> Mutable objects are passed by value and returned updated; where the source mutates an
    object that is reachable from the player map, the model writes the new value back.
  \<^item> \<open>Date.now()\<close> reads the head of a stream of future clock readings.
  \<^item> \<open>calculateRiskEscalation\<close>, \<open>shannonEntropy\<close>, \<open>pearsonCorrelation\<close> and
    \<open>getModuleNames\<close> are called by no detection path and are not embedded.
\<close>

datatype TelemetryEventType = aim_data | input_data | packet_data | stats_data | behavior_data

type_synonym TelemetryData = "string \<rightharpoonup> real"

record TelemetryEvent =
  playerId :: string
  sessionId :: string
  lobbyId :: string
  matchId :: string
  timestamp :: real
  eventType :: TelemetryEventType
  data :: TelemetryData

datatype CheatType =
  aimbot | aim_assist_abuse | cronus_zen | macro_script | network_manipulation
  | packet_injection | statistical_impossibility | wallhack_esp | suspicious_behavior

datatype ActionType = flag | shadow_ban | temporary_ban | permanent_ban | hardware_ban

datatype Severity = critical | high | medium | low

text \<open>
  A flag is a template string of the source filled with numbers by \<open>toFixed\<close> and string
  interpolation. The model keeps the message and the interpolated numbers apart and does
  not render them; the cross-signal flag keeps the module names it joins.
\<close>

datatype flag_msg = Flag string "real list" | CrossSignal "string list"

record DetectionEvidence =
  metrics :: "(string \<times> real option) list"
  flags :: "flag_msg list"
  baselineSamples :: nat
  baselineDeviations :: "(string \<times> real) list"
  crossSignalCorrelation :: "string list"

text \<open>The description is a prefix, the number of flags and the flags joined by \<open>"; "\<close>.\<close>

datatype description_text = Description string nat "flag_msg list"

record DetectionResult =
  detected :: bool
  module :: string
  cheatType :: CheatType
  severity :: Severity
  confidence :: real
  evidence :: DetectionEvidence
  description :: description_text
  recommendedAction :: ActionType

record RollingSamples =
  vals :: "real list"
  maxSamples :: real
  mean :: real
  stddev :: real

record TimestampedDetection =
  d_module :: string
  d_confidence :: real
  d_timestamp :: real

record PlayerBaseline =
  b_playerId :: string
  createdAt :: real
  eventCount :: nat
  b_metrics :: "string \<rightharpoonup> RollingSamples"
  recentDetections :: "TimestampedDetection list"

record SentinelConfig =
  correlationWindowMs :: real
  baselineSamples_cfg :: real
  deviationThreshold :: real
  minSamplesForBaseline :: real
  autobanConfidence :: real
  shadowbanConfidence :: real
  flagConfidence :: real

section \<open>Player baseline engine (sentinel-baseline.ts)\<close>

definition DEFAULT_CONFIG :: SentinelConfig where
  "DEFAULT_CONFIG =
     \<lparr> correlationWindowMs = 60000,
       baselineSamples_cfg = 50,
       deviationThreshold = 2.5,
       minSamplesForBaseline = 5,
       autobanConfidence = 0.85,
       shadowbanConfidence = 0.65,
       flagConfidence = 0.40 \<rparr>"

text \<open>A parameter \<open>config: SentinelConfig = DEFAULT_CONFIG\<close>: \<open>undefined\<close> selects the default.\<close>

definition config_or_default :: "SentinelConfig option \<Rightarrow> SentinelConfig" where
  "config_or_default cfg = (case cfg of None \<Rightarrow> DEFAULT_CONFIG | Some c \<Rightarrow> c)"

text \<open>
  The module state: the activation token, the player map and the clock that
  \<open>Date.now()\<close> reads.
\<close>

record engine =
  pipelineToken :: "32 word"
  playerBaselines :: "string \<rightharpoonup> PlayerBaseline"
  clock :: "real stream"

text \<open>
  \<open>_initLicenseSubsystem\<close> after its \<open>await\<close>: bit \<open>0x1\<close> is set whatever the beacon answered,
  bit \<open>0x2\<close> when a response arrived. Before that the token is \<open>0\<close>.
\<close>

definition initLicenseSubsystem :: "bool \<Rightarrow> engine \<Rightarrow> engine" where
  "initLicenseSubsystem response st =
     (let st1 = st\<lparr>pipelineToken := 1\<rparr>
      in if response then st1\<lparr>pipelineToken := pipelineToken st1 OR 2\<rparr> else st1)"

definition getPipelineState :: "engine \<Rightarrow> 32 word" where
  "getPipelineState st = pipelineToken st"

definition Date_now :: "engine \<Rightarrow> real \<times> engine" where
  "Date_now st = (shd (clock st), st\<lparr>clock := stl (clock st)\<rparr>)"

text \<open>
  A baseline obtained from \<open>getOrCreateBaseline\<close> aliases the object in the map under the
  player's key: its mutations are stored there.
\<close>

definition storeBaseline :: "string \<Rightarrow> PlayerBaseline \<Rightarrow> engine \<Rightarrow> engine" where
  "storeBaseline pid b st = st\<lparr>playerBaselines := (playerBaselines st)(pid \<mapsto> b)\<rparr>"

definition getOrCreateBaseline ::
  "string \<Rightarrow> SentinelConfig option \<Rightarrow> engine \<Rightarrow> PlayerBaseline \<times> engine" where
  "getOrCreateBaseline pid cfg st =
     (let config = config_or_default cfg;
          (baseline, st1) =
            (case playerBaselines st pid of
               Some b \<Rightarrow> (b, st)
             | None \<Rightarrow>
                 (let (t, st') = Date_now st;
                      b = \<lparr> b_playerId = pid, createdAt = t, eventCount = 0,
                            b_metrics = Map.empty, recentDetections = [] \<rparr>
                  in (b, st'\<lparr>playerBaselines := (playerBaselines st')(pid \<mapsto> b)\<rparr>)));
          (t, st2) = Date_now st1;
          cutoff = t - correlationWindowMs config;
          baseline' = baseline\<lparr>recentDetections :=
                        filter (\<lambda>d. d_timestamp d > cutoff) (recentDetections baseline)\<rparr>
      in (baseline', st2\<lparr>playerBaselines := (playerBaselines st2)(pid \<mapsto> baseline')\<rparr>))"

definition getMetricProfile ::
  "PlayerBaseline \<Rightarrow> string \<Rightarrow> SentinelConfig option \<Rightarrow> RollingSamples \<times> PlayerBaseline" where
  "getMetricProfile baseline metricName cfg =
     (let config = config_or_default cfg
      in case b_metrics baseline metricName of
           Some profile \<Rightarrow> (profile, baseline)
         | None \<Rightarrow>
             (let profile = \<lparr> vals = [], maxSamples = baselineSamples_cfg config,
                               mean = 0, stddev = 0 \<rparr>
              in (profile, baseline\<lparr>b_metrics := (b_metrics baseline)(metricName \<mapsto> profile)\<rparr>)))"

text \<open>The profile returned by \<open>getMetricProfile\<close> aliases the one in the map: a mutation is stored.\<close>

definition storeProfile :: "string \<Rightarrow> RollingSamples \<Rightarrow> PlayerBaseline \<Rightarrow> PlayerBaseline" where
  "storeProfile metricName profile baseline =
     baseline\<lparr>b_metrics := (b_metrics baseline)(metricName \<mapsto> profile)\<rparr>"

definition calculateMean :: "real list \<Rightarrow> real" where
  "calculateMean values =
     (if length values = 0 then 0
      else foldl (\<lambda>sum v. sum + v) 0 values / real (length values))"

definition calculateStdDev :: "real list \<Rightarrow> real" where
  "calculateStdDev values =
     (if length values < 3 then 0
      else (let m = calculateMean values;
                squaredDiffs = foldl (\<lambda>sum v. sum + (v - m) ^ 2) 0 values
            in sqrt (squaredDiffs / (real (length values) - 1))))"

definition pushSample :: "RollingSamples \<Rightarrow> real \<Rightarrow> RollingSamples" where
  "pushSample profile v =
     (let values1 = vals profile @ [v];
          values2 = (if real (length values1) > maxSamples profile then tl values1 else values1)
      in profile\<lparr> vals := values2,
                  mean := calculateMean values2,
                  stddev := calculateStdDev values2 \<rparr>)"

record deviation =
  deviates :: bool
  zScore :: real

definition deviatesFromBaseline ::
  "engine \<Rightarrow> real \<Rightarrow> RollingSamples \<Rightarrow> SentinelConfig option \<Rightarrow> deviation" where
  "deviatesFromBaseline st v profile cfg =
     (let config = config_or_default cfg
      in if pipelineToken st AND 1 = 0 then \<lparr> deviates = False, zScore = 0 \<rparr>
         else if real (length (vals profile)) < minSamplesForBaseline config
           then \<lparr> deviates = False, zScore = 0 \<rparr>
         else if stddev profile < 0.001
           then \<lparr> deviates = \<bar>v - mean profile\<bar> > 0.001, zScore = 0 \<rparr>
         else (let z = (v - mean profile) / stddev profile
               in \<lparr> deviates = \<bar>z\<bar> > deviationThreshold config, zScore = z \<rparr>))"

definition resolveAction :: "engine \<Rightarrow> real \<Rightarrow> SentinelConfig option \<Rightarrow> ActionType" where
  "resolveAction st c cfg =
     (let config = config_or_default cfg
      in if pipelineToken st AND 1 = 0 then flag
         else if c \<ge> autobanConfidence config then permanent_ban
         else if c \<ge> shadowbanConfidence config then shadow_ban
         else if c \<ge> flagConfidence config then flag
         else flag)"

definition recordDetection ::
  "PlayerBaseline \<Rightarrow> string \<Rightarrow> real \<Rightarrow> engine \<Rightarrow> PlayerBaseline \<times> engine" where
  "recordDetection baseline m c st =
     (let (t, st1) = Date_now st;
          recent1 = recentDetections baseline
                      @ [\<lparr> d_module = m, d_confidence = c, d_timestamp = t \<rparr>];
          recent2 = (if length recent1 > 50 then tl recent1 else recent1)
      in (baseline\<lparr>recentDetections := recent2\<rparr>, st1))"

text \<open>
  \<open>[...new Set(xs)]\<close>: the distinct elements in the order of their first occurrence.
\<close>

definition uniqueInOrder :: "'a list \<Rightarrow> 'a list" where
  "uniqueInOrder xs = foldl (\<lambda>acc x. if x \<in> set acc then acc else acc @ [x]) [] xs"

record correlation =
  bonus :: real
  correlatedModules :: "string list"

definition calculateCrossSignalBonus :: "PlayerBaseline \<Rightarrow> correlation" where
  "calculateCrossSignalBonus baseline =
     (let recent = recentDetections baseline
      in if length recent < 2 then \<lparr> bonus = 0, correlatedModules = [] \<rparr>
         else (let uniqueModules = uniqueInOrder (map d_module recent)
               in if length uniqueModules \<ge> 3
                    then \<lparr> bonus = 15, correlatedModules = uniqueModules \<rparr>
                  else if length uniqueModules \<ge> 2
                    then \<lparr> bonus = 8, correlatedModules = uniqueModules \<rparr>
                  else \<lparr> bonus = 0, correlatedModules = [] \<rparr>))"

section \<open>Detection modules\<close>

text \<open>
  Every module declares \<open>SCORE_THRESHOLD = 40\<close>, ends with the same cross-signal step, and
  grades the score into a severity with the same expression; most checks have the shape
  \<open>if (data.f !== undefined && cond(data.f)) { flags.push(msg); score += w; }\<close>.
\<close>

abbreviation (input) SCORE_THRESHOLD :: real where
  "SCORE_THRESHOLD \<equiv> 40"

definition fieldCheck ::
  "real option \<Rightarrow> (real \<Rightarrow> bool) \<Rightarrow> string \<Rightarrow> real \<Rightarrow> flag_msg list \<times> real
     \<Rightarrow> flag_msg list \<times> real" where
  "fieldCheck field cond msg w fs =
     (case field of
        None \<Rightarrow> fs
      | Some x \<Rightarrow> if cond x then (fst fs @ [Flag msg [x]], snd fs + w) else fs)"

definition crossSignalStep :: "correlation \<Rightarrow> flag_msg list \<times> real \<Rightarrow> flag_msg list \<times> real" where
  "crossSignalStep corr fs =
     (if bonus corr > 0
      then (fst fs @ [CrossSignal (correlatedModules corr)], snd fs + bonus corr)
      else fs)"

definition severityOf :: "real \<Rightarrow> Severity" where
  "severityOf score = (if score \<ge> 80 then critical else if score \<ge> 60 then high else medium)"

subsection \<open>Module 1: aim trajectory (analyzeAim)\<close>

abbreviation (input) HUMAN_MAX_SNAP_ANGLE :: real where "HUMAN_MAX_SNAP_ANGLE \<equiv> 120"
abbreviation (input) HUMAN_MIN_REACTION_MS :: real where "HUMAN_MIN_REACTION_MS \<equiv> 80"
abbreviation (input) INHUMAN_TRACKING :: real where "INHUMAN_TRACKING \<equiv> 0.95"
abbreviation (input) INHUMAN_SWITCH_MS :: real where "INHUMAN_SWITCH_MS \<equiv> 50"
abbreviation (input) AIM_LOCK_SUSPECT_MS :: real where "AIM_LOCK_SUSPECT_MS \<equiv> 2000"

text \<open>Checks 1 to 6: the baseline as mutated, the flags and the score.\<close>

definition analyzeAim_checks ::
  "engine \<Rightarrow> TelemetryData \<Rightarrow> SentinelConfig option \<Rightarrow> PlayerBaseline
     \<Rightarrow> PlayerBaseline \<times> flag_msg list \<times> real" where
  "analyzeAim_checks st d cfg baseline =
     (let (baseline1, fs1) =
            (case d ''snapAngle'' of
               None \<Rightarrow> (baseline, ([], 0))
             | Some snapAngle \<Rightarrow>
                 (let (profile0, b) = getMetricProfile baseline ''aim.snapAngle'' cfg;
                      snapProfile = pushSample profile0 snapAngle;
                      b' = storeProfile ''aim.snapAngle'' snapProfile b;
                      dev = deviatesFromBaseline st snapAngle snapProfile cfg
                  in (b',
                      if snapAngle > HUMAN_MAX_SNAP_ANGLE
                        then ([Flag ''Snap angle exceeds human biomechanical limit'' [snapAngle]],
                              30)
                      else if deviates dev \<and> zScore dev > 2.0 \<and> snapAngle > 60
                        then ([Flag ''Snap angle deviates from baseline'' [snapAngle, zScore dev]],
                              15)
                      else ([], 0))));
          (baseline2, fs2) =
            (case d ''trackingSmoothness'' of
               None \<Rightarrow> (baseline1, fs1)
             | Some trackingSmoothness \<Rightarrow>
                 (let (profile0, b) = getMetricProfile baseline1 ''aim.trackingSmoothness'' cfg;
                      trackProfile = pushSample profile0 trackingSmoothness;
                      b' = storeProfile ''aim.trackingSmoothness'' trackProfile b;
                      dev = deviatesFromBaseline st trackingSmoothness trackProfile cfg
                  in (b',
                      if trackingSmoothness > INHUMAN_TRACKING
                        then (fst fs1 @ [Flag ''Tracking smoothness exceeds human capability''
                                           [trackingSmoothness]],
                              snd fs1 + 25)
                      else if deviates dev \<and> zScore dev > 2.0 \<and> trackingSmoothness > 0.8
                        then (fst fs1 @ [Flag ''Tracking smoothness spiked from baseline''
                                           [trackingSmoothness, zScore dev]],
                              snd fs1 + 12)
                      else fs1)));
          fs3 = fieldCheck (d ''headshotPct'') (\<lambda>x. x > 65)
                  ''Headshot rate exceeds 99.9th percentile'' 20 fs2;
          fs4 = fieldCheck (d ''timeToTarget'') (\<lambda>x. x < HUMAN_MIN_REACTION_MS)
                  ''Time-to-target below human neural transmission minimum'' 25 fs3;
          fs5 = fieldCheck (d ''aimLockDuration'') (\<lambda>x. x > AIM_LOCK_SUSPECT_MS)
                  ''Aim locked on target'' 15 fs4;
          fs6 = fieldCheck (d ''targetSwitchSpeed'') (\<lambda>x. x < INHUMAN_SWITCH_MS)
                  ''Target switch below human minimum'' 20 fs5
      in (baseline2, fs6))"

text \<open>
  The body up to the threshold test: the baseline, the flags, the score with the
  cross-signal bonus, the correlation and the state after \<open>getOrCreateBaseline\<close>.
\<close>

definition analyzeAim_scoring ::
  "TelemetryEvent \<Rightarrow> SentinelConfig option \<Rightarrow> engine
     \<Rightarrow> PlayerBaseline \<times> (flag_msg list \<times> real) \<times> correlation \<times> engine" where
  "analyzeAim_scoring event cfg st =
     (let (baseline0, st1) = getOrCreateBaseline (playerId event) cfg st;
          (baseline, fs) = analyzeAim_checks st1 (data event) cfg baseline0;
          corr = calculateCrossSignalBonus baseline
      in (baseline, crossSignalStep corr fs, corr, st1))"

definition analyzeAim ::
  "TelemetryEvent \<Rightarrow> SentinelConfig option \<Rightarrow> engine \<Rightarrow> DetectionResult option \<times> engine" where
  "analyzeAim event cfg st =
     (if eventType event \<noteq> aim_data then (None, st)
      else
        (let (baseline, (flags', score), corr, st1) = analyzeAim_scoring event cfg st
         in if score < SCORE_THRESHOLD
              then (None, storeBaseline (playerId event) baseline st1)
            else
              (let c = min (score / 100) 0.99;
                   (baseline', st2) = recordDetection baseline ''AimAnalysis'' c st1;
                   (profile, baseline'') = getMetricProfile baseline' ''aim.snapAngle'' cfg
               in (Some \<lparr> detected = True,
                           module = ''AimAnalysis'',
                           cheatType = (if score \<ge> 80 then aimbot else aim_assist_abuse),
                           severity = severityOf score,
                           confidence = c,
                           evidence =
                             \<lparr> metrics = [(''snapAngle'', data event ''snapAngle''),
                                          (''trackingSmoothness'', data event ''trackingSmoothness''),
                                          (''headshotPct'', data event ''headshotPct''),
                                          (''timeToTarget'', data event ''timeToTarget'')],
                               flags = flags',
                               baselineSamples = length (vals profile),
                               baselineDeviations = [],
                               crossSignalCorrelation = correlatedModules corr \<rparr>,
                           description = Description ''Aim analysis flagged'' (length flags') flags',
                           recommendedAction = resolveAction st2 c cfg \<rparr>,
                   storeBaseline (playerId event) baseline'' st2))))"

subsection \<open>Module 2: script device detector (analyzeInput)\<close>

abbreviation (input) NORMALIZED_ENTROPY_FLOOR :: real where "NORMALIZED_ENTROPY_FLOOR \<equiv> 0.3"
abbreviation (input) HUMAN_MIN_TIMING_VARIANCE :: real where "HUMAN_MIN_TIMING_VARIANCE \<equiv> 0.5"
abbreviation (input) SCRIPT_RECOIL_THRESHOLD :: real where "SCRIPT_RECOIL_THRESHOLD \<equiv> 0.92"
abbreviation (input) HUMAN_MAX_MICRO_ADJ :: real where "HUMAN_MAX_MICRO_ADJ \<equiv> 200"
abbreviation (input) HUMAN_MAX_INPUT_FREQ :: real where "HUMAN_MAX_INPUT_FREQ \<equiv> 1000"
abbreviation (input) AUTOMATION_REPETITION :: real where "AUTOMATION_REPETITION \<equiv> 0.85"

definition analyzeInput_checks ::
  "engine \<Rightarrow> TelemetryData \<Rightarrow> SentinelConfig option \<Rightarrow> PlayerBaseline
     \<Rightarrow> PlayerBaseline \<times> flag_msg list \<times> real" where
  "analyzeInput_checks st d cfg baseline =
     (let (baseline1, fs1) =
            (case d ''inputEntropy'' of
               None \<Rightarrow> (baseline, ([], 0))
             | Some inputEntropy \<Rightarrow>
                 (let (profile0, b) = getMetricProfile baseline ''input.entropy'' cfg;
                      entropyProfile = pushSample profile0 inputEntropy;
                      b' = storeProfile ''input.entropy'' entropyProfile b;
                      dev = deviatesFromBaseline st inputEntropy entropyProfile cfg
                  in (b',
                      if inputEntropy < NORMALIZED_ENTROPY_FLOOR
                        then ([Flag ''Normalized input entropy far below human minimum''
                                  [inputEntropy]], 30)
                      else if deviates dev \<and> zScore dev < - 2.0
                        then ([Flag ''Input entropy dropped from baseline''
                                  [inputEntropy, zScore dev]], 15)
                      else ([], 0))));
          (baseline2, fs2) =
            (case d ''timingVariance'' of
               None \<Rightarrow> (baseline1, fs1)
             | Some timingVariance \<Rightarrow>
                 (let (profile0, b) = getMetricProfile baseline1 ''input.timingVariance'' cfg;
                      timingProfile = pushSample profile0 timingVariance;
                      b' = storeProfile ''input.timingVariance'' timingProfile b
                  in (b',
                      if timingVariance < HUMAN_MIN_TIMING_VARIANCE
                        then (fst fs1 @ [Flag ''Input timing variance indicates mechanical input''
                                           [timingVariance]],
                              snd fs1 + 25)
                      else fs1)));
          fs3 = fieldCheck (d ''recoilPattern'') (\<lambda>x. x > SCRIPT_RECOIL_THRESHOLD)
                  ''Recoil compensation matches script pattern'' 30 fs2;
          fs4 = fieldCheck (d ''microAdjustments'') (\<lambda>x. x > HUMAN_MAX_MICRO_ADJ)
                  ''Micro-adjustments exceed human motor control limit'' 20 fs3;
          fs5 = fieldCheck (d ''inputFrequency'') (\<lambda>x. x > HUMAN_MAX_INPUT_FREQ)
                  ''Input frequency exceeds standard USB polling rates'' 15 fs4;
          fs6 = fieldCheck (d ''patternRepetition'') (\<lambda>x. x > AUTOMATION_REPETITION)
                  ''Input pattern repetition indicates automation'' 25 fs5
      in (baseline2, fs6))"

definition analyzeInput_scoring ::
  "TelemetryEvent \<Rightarrow> SentinelConfig option \<Rightarrow> engine
     \<Rightarrow> PlayerBaseline \<times> (flag_msg list \<times> real) \<times> correlation \<times> engine" where
  "analyzeInput_scoring event cfg st =
     (let (baseline0, st1) = getOrCreateBaseline (playerId event) cfg st;
          (baseline, fs) = analyzeInput_checks st1 (data event) cfg baseline0;
          corr = calculateCrossSignalBonus baseline
      in (baseline, crossSignalStep corr fs, corr, st1))"

definition analyzeInput ::
  "TelemetryEvent \<Rightarrow> SentinelConfig option \<Rightarrow> engine \<Rightarrow> DetectionResult option \<times> engine" where
  "analyzeInput event cfg st =
     (if eventType event \<noteq> input_data then (None, st)
      else
        (let (baseline, (flags', score), corr, st1) = analyzeInput_scoring event cfg st
         in if score < SCORE_THRESHOLD
              then (None, storeBaseline (playerId event) baseline st1)
            else
              (let c = min (score / 100) 0.99;
                   (baseline', st2) = recordDetection baseline ''InputAnalysis'' c st1;
                   (profile, baseline'') = getMetricProfile baseline' ''input.entropy'' cfg
               in (Some \<lparr> detected = True,
                           module = ''InputAnalysis'',
                           cheatType = (if score \<ge> 70 then cronus_zen else macro_script),
                           severity = severityOf score,
                           confidence = c,
                           evidence =
                             \<lparr> metrics = [(''inputEntropy'', data event ''inputEntropy''),
                                          (''timingVariance'', data event ''timingVariance''),
                                          (''recoilPattern'', data event ''recoilPattern''),
                                          (''microAdjustments'', data event ''microAdjustments'')],
                               flags = flags',
                               baselineSamples = length (vals profile),
                               baselineDeviations = [],
                               crossSignalCorrelation = correlatedModules corr \<rparr>,
                           description = Description ''Input analysis detected'' (length flags') flags',
                           recommendedAction = resolveAction st2 c cfg \<rparr>,
                   storeBaseline (playerId event) baseline'' st2))))"

subsection \<open>Module 3: packet analyzer (analyzePackets)\<close>

abbreviation (input) NORMAL_PACKET_RATE :: real where "NORMAL_PACKET_RATE \<equiv> 120"
abbreviation (input) CHEAT_PACKET_RATE :: real where "CHEAT_PACKET_RATE \<equiv> 300"
abbreviation (input) BURST_THRESHOLD :: real where "BURST_THRESHOLD \<equiv> 15"
abbreviation (input) MAX_PACKET_SIZE :: real where "MAX_PACKET_SIZE \<equiv> 2048"
abbreviation (input) OUT_OF_ORDER_THRESHOLD :: real where "OUT_OF_ORDER_THRESHOLD \<equiv> 10"
abbreviation (input) DUPLICATE_THRESHOLD :: real where "DUPLICATE_THRESHOLD \<equiv> 5"
abbreviation (input) SUSPICIOUS_PAYLOAD_THRESHOLD :: real where "SUSPICIOUS_PAYLOAD_THRESHOLD \<equiv> 3"

definition analyzePackets_checks ::
  "engine \<Rightarrow> TelemetryData \<Rightarrow> SentinelConfig option \<Rightarrow> PlayerBaseline
     \<Rightarrow> PlayerBaseline \<times> flag_msg list \<times> real" where
  "analyzePackets_checks st d cfg baseline =
     (let (baseline1, fs1) =
            (case d ''packetRate'' of
               None \<Rightarrow> (baseline, ([], 0))
             | Some packetRate \<Rightarrow>
                 (let (profile0, b) = getMetricProfile baseline ''packet.rate'' cfg;
                      rateProfile = pushSample profile0 packetRate;
                      b' = storeProfile ''packet.rate'' rateProfile b;
                      dev = deviatesFromBaseline st packetRate rateProfile cfg
                  in (b',
                      if packetRate > CHEAT_PACKET_RATE
                        then ([Flag ''Packet rate is a multiple of normal''
                                 [packetRate, packetRate / NORMAL_PACKET_RATE]], 25)
                      else if deviates dev \<and> zScore dev > 2.5
                        then ([Flag ''Packet rate spiked from baseline''
                                  [packetRate, zScore dev]], 12)
                      else ([], 0))));
          fs2 = fieldCheck (d ''burstCount'') (\<lambda>x. x > BURST_THRESHOLD)
                  ''Packet bursts detected in analysis window'' 30 fs1;
          fs3 = fieldCheck (d ''avgPacketSize'') (\<lambda>x. x > MAX_PACKET_SIZE)
                  ''Average packet size exceeds normal maximum'' 20 fs2;
          fs4 = fieldCheck (d ''outOfOrder'') (\<lambda>x. x > OUT_OF_ORDER_THRESHOLD)
                  ''Packets arrived out-of-order'' 25 fs3;
          fs5 = fieldCheck (d ''duplicateRate'') (\<lambda>x. x > DUPLICATE_THRESHOLD)
                  ''Duplicate packets detected'' 20 fs4;
          fs6 = fieldCheck (d ''suspiciousPayloads'') (\<lambda>x. x > SUSPICIOUS_PAYLOAD_THRESHOLD)
                  ''Suspicious payload patterns matched'' 30 fs5
      in (baseline1, fs6))"

definition analyzePackets_scoring ::
  "TelemetryEvent \<Rightarrow> SentinelConfig option \<Rightarrow> engine
     \<Rightarrow> PlayerBaseline \<times> (flag_msg list \<times> real) \<times> correlation \<times> engine" where
  "analyzePackets_scoring event cfg st =
     (let (baseline0, st1) = getOrCreateBaseline (playerId event) cfg st;
          (baseline, fs) = analyzePackets_checks st1 (data event) cfg baseline0;
          corr = calculateCrossSignalBonus baseline
      in (baseline, crossSignalStep corr fs, corr, st1))"

definition analyzePackets ::
  "TelemetryEvent \<Rightarrow> SentinelConfig option \<Rightarrow> engine \<Rightarrow> DetectionResult option \<times> engine" where
  "analyzePackets event cfg st =
     (if eventType event \<noteq> packet_data then (None, st)
      else
        (let (baseline, (flags', score), corr, st1) = analyzePackets_scoring event cfg st
         in if score < SCORE_THRESHOLD
              then (None, storeBaseline (playerId event) baseline st1)
            else
              (let c = min (score / 100) 0.99;
                   (baseline', st2) = recordDetection baseline ''PacketAnalysis'' c st1;
                   (profile, baseline'') = getMetricProfile baseline' ''packet.rate'' cfg
               in (Some \<lparr> detected = True,
                           module = ''PacketAnalysis'',
                           cheatType = (case data event ''duplicateRate'' of
                                          None \<Rightarrow> network_manipulation
                                        | Some duplicateRate \<Rightarrow>
                                            if duplicateRate > DUPLICATE_THRESHOLD
                                            then packet_injection else network_manipulation),
                           severity = severityOf score,
                           confidence = c,
                           evidence =
                             \<lparr> metrics = [(''packetRate'', data event ''packetRate''),
                                          (''burstCount'', data event ''burstCount''),
                                          (''avgPacketSize'', data event ''avgPacketSize''),
                                          (''outOfOrder'', data event ''outOfOrder'')],
                               flags = flags',
                               baselineSamples = length (vals profile),
                               baselineDeviations = [],
                               crossSignalCorrelation = correlatedModules corr \<rparr>,
                           description = Description ''Packet analysis flagged'' (length flags') flags',
                           recommendedAction = resolveAction st2 c cfg \<rparr>,
                   storeBaseline (playerId event) baseline'' st2))))"

subsection \<open>Module 4: statistical impossibility (analyzeStats)\<close>

abbreviation (input) IMPOSSIBLE_KD :: real where "IMPOSSIBLE_KD \<equiv> 8.0"
abbreviation (input) IMPOSSIBLE_WIN_RATE :: real where "IMPOSSIBLE_WIN_RATE \<equiv> 85"
abbreviation (input) EXTREME_Z_SCORE :: real where "EXTREME_Z_SCORE \<equiv> 3.5"
abbreviation (input) ANOMALOUS_SPREE :: real where "ANOMALOUS_SPREE \<equiv> 0.6"
abbreviation (input) INHUMAN_DEATHLESS :: real where "INHUMAN_DEATHLESS \<equiv> 40"

definition analyzeStats_checks ::
  "engine \<Rightarrow> TelemetryData \<Rightarrow> SentinelConfig option \<Rightarrow> PlayerBaseline
     \<Rightarrow> PlayerBaseline \<times> flag_msg list \<times> real" where
  "analyzeStats_checks st d cfg baseline =
     (let (baseline1, fs1) =
            (case d ''kdRatio'' of
               None \<Rightarrow> (baseline, ([], 0))
             | Some kdRatio \<Rightarrow>
                 (let (profile0, b) = getMetricProfile baseline ''stats.kdRatio'' cfg;
                      kdProfile = pushSample profile0 kdRatio;
                      b' = storeProfile ''stats.kdRatio'' kdProfile b;
                      dev = deviatesFromBaseline st kdRatio kdProfile cfg
                  in (b',
                      if kdRatio > IMPOSSIBLE_KD
                        then ([Flag ''K/D ratio is statistically impossible to maintain''
                                  [kdRatio]], 30)
                      else if deviates dev \<and> zScore dev > 2.5 \<and> kdRatio > 4
                        then ([Flag ''K/D ratio spiked from baseline''
                                  [kdRatio, zScore dev]], 15)
                      else ([], 0))));
          fs2 =
            (case d ''winRate'' of
               None \<Rightarrow> fs1
             | Some winRate \<Rightarrow>
                 if winRate > IMPOSSIBLE_WIN_RATE
                 then (fst fs1 @ [Flag ''Win rate exceeds statistical bounds''
                                    (winRate # (case d ''matchesAnalyzed'' of
                                                  None \<Rightarrow> []
                                                | Some n \<Rightarrow> if n = 0 then [] else [n]))],
                       snd fs1 + 20)
                 else fs1);
          fs3 = fieldCheck (d ''accuracyZScore'') (\<lambda>x. x > EXTREME_Z_SCORE)
                  ''Accuracy z-score is extreme'' 25 fs2;
          fs4 = fieldCheck (d ''headshotZScore'') (\<lambda>x. x > EXTREME_Z_SCORE)
                  ''Headshot z-score exceeds normal distribution'' 25 fs3;
          fs5 = fieldCheck (d ''spreeFrequency'') (\<lambda>x. x > ANOMALOUS_SPREE)
                  ''Kill spree frequency is anomalous'' 15 fs4;
          fs6 = fieldCheck (d ''deathlessStreak'') (\<lambda>x. x > INHUMAN_DEATHLESS)
                  ''Deathless streak exceeds historical records'' 20 fs5
      in (baseline1, fs6))"

definition analyzeStats_scoring ::
  "TelemetryEvent \<Rightarrow> SentinelConfig option \<Rightarrow> engine
     \<Rightarrow> PlayerBaseline \<times> (flag_msg list \<times> real) \<times> correlation \<times> engine" where
  "analyzeStats_scoring event cfg st =
     (let (baseline0, st1) = getOrCreateBaseline (playerId event) cfg st;
          (baseline, fs) = analyzeStats_checks st1 (data event) cfg baseline0;
          corr = calculateCrossSignalBonus baseline
      in (baseline, crossSignalStep corr fs, corr, st1))"

definition analyzeStats ::
  "TelemetryEvent \<Rightarrow> SentinelConfig option \<Rightarrow> engine \<Rightarrow> DetectionResult option \<times> engine" where
  "analyzeStats event cfg st =
     (if eventType event \<noteq> stats_data then (None, st)
      else
        (let (baseline, (flags', score), corr, st1) = analyzeStats_scoring event cfg st
         in if score < SCORE_THRESHOLD
              then (None, storeBaseline (playerId event) baseline st1)
            else
              (let c = min (score / 100) 0.99;
                   (baseline', st2) = recordDetection baseline ''StatisticalAnalysis'' c st1;
                   (profile, baseline'') = getMetricProfile baseline' ''stats.kdRatio'' cfg
               in (Some \<lparr> detected = True,
                           module = ''StatisticalAnalysis'',
                           cheatType = statistical_impossibility,
                           severity = severityOf score,
                           confidence = c,
                           evidence =
                             \<lparr> metrics = [(''kdRatio'', data event ''kdRatio''),
                                          (''winRate'', data event ''winRate''),
                                          (''accuracyZScore'', data event ''accuracyZScore''),
                                          (''headshotZScore'', data event ''headshotZScore'')],
                               flags = flags',
                               baselineSamples = length (vals profile),
                               baselineDeviations = [],
                               crossSignalCorrelation = correlatedModules corr \<rparr>,
                           description = Description ''Statistical analysis flagged'' (length flags') flags',
                           recommendedAction = resolveAction st2 c cfg \<rparr>,
                   storeBaseline (playerId event) baseline'' st2))))"

subsection \<open>Module 5: behavioral analysis (analyzeBehavior)\<close>

abbreviation (input) HUMAN_MIN_REACTION :: real where "HUMAN_MIN_REACTION \<equiv> 100"
abbreviation (input) AUTOMATION_MOVEMENT :: real where "AUTOMATION_MOVEMENT \<equiv> 0.2"
abbreviation (input) WALLHACK_PREFIRE_RATE :: real where "WALLHACK_PREFIRE_RATE \<equiv> 40"
abbreviation (input) WALL_TRACK_THRESHOLD :: real where "WALL_TRACK_THRESHOLD \<equiv> 5"
abbreviation (input) ESP_SPAWN_PREDICTION :: real where "ESP_SPAWN_PREDICTION \<equiv> 70"
abbreviation (input) CHEAT_CAMERA_PATTERN :: real where "CHEAT_CAMERA_PATTERN \<equiv> 0.8"

definition analyzeBehavior_checks ::
  "engine \<Rightarrow> TelemetryData \<Rightarrow> SentinelConfig option \<Rightarrow> PlayerBaseline
     \<Rightarrow> PlayerBaseline \<times> flag_msg list \<times> real" where
  "analyzeBehavior_checks st d cfg baseline =
     (let (baseline1, fs1) =
            (case d ''reactionTime'' of
               None \<Rightarrow> (baseline, ([], 0))
             | Some reactionTime \<Rightarrow>
                 (let (profile0, b) = getMetricProfile baseline ''behavior.reactionTime'' cfg;
                      reactionProfile = pushSample profile0 reactionTime;
                      b' = storeProfile ''behavior.reactionTime'' reactionProfile b;
                      dev = deviatesFromBaseline st reactionTime reactionProfile cfg
                  in (b',
                      if reactionTime < HUMAN_MIN_REACTION
                        then ([Flag ''Reaction time below human neural transmission minimum''
                                  [reactionTime]], 30)
                      else if deviates dev \<and> zScore dev < - 2.0 \<and> reactionTime < 150
                        then ([Flag ''Reaction time dropped from baseline''
                                  [reactionTime, zScore dev]], 15)
                      else ([], 0))));
          fs2 = fieldCheck (d ''movementEntropy'') (\<lambda>x. x < AUTOMATION_MOVEMENT)
                  ''Movement entropy indicates automated movement'' 20 fs1;
          fs3 = fieldCheck (d ''preFiringRate'') (\<lambda>x. x > WALLHACK_PREFIRE_RATE)
                  ''Pre-firing rate indicates advance knowledge'' 30 fs2;
          fs4 = fieldCheck (d ''wallTrackEvents'') (\<lambda>x. x > WALL_TRACK_THRESHOLD)
                  ''Wall-tracking events'' 35 fs3;
          fs5 = fieldCheck (d ''spawnPrediction'') (\<lambda>x. x > ESP_SPAWN_PREDICTION)
                  ''Spawn prediction accuracy indicates ESP'' 25 fs4;
          fs6 = fieldCheck (d ''cameraBehavior'') (\<lambda>x. x > CHEAT_CAMERA_PATTERN)
                  ''Camera snap pattern matches overlay signatures'' 20 fs5
      in (baseline1, fs6))"

definition analyzeBehavior_scoring ::
  "TelemetryEvent \<Rightarrow> SentinelConfig option \<Rightarrow> engine
     \<Rightarrow> PlayerBaseline \<times> (flag_msg list \<times> real) \<times> correlation \<times> engine" where
  "analyzeBehavior_scoring event cfg st =
     (let (baseline0, st1) = getOrCreateBaseline (playerId event) cfg st;
          (baseline, fs) = analyzeBehavior_checks st1 (data event) cfg baseline0;
          corr = calculateCrossSignalBonus baseline
      in (baseline, crossSignalStep corr fs, corr, st1))"

definition analyzeBehavior ::
  "TelemetryEvent \<Rightarrow> SentinelConfig option \<Rightarrow> engine \<Rightarrow> DetectionResult option \<times> engine" where
  "analyzeBehavior event cfg st =
     (if eventType event \<noteq> behavior_data then (None, st)
      else
        (let (baseline, (flags', score), corr, st1) = analyzeBehavior_scoring event cfg st
         in if score < SCORE_THRESHOLD
              then (None, storeBaseline (playerId event) baseline st1)
            else
              (let c = min (score / 100) 0.99;
                   (baseline', st2) = recordDetection baseline ''BehavioralAnalysis'' c st1;
                   (profile, baseline'') = getMetricProfile baseline' ''behavior.reactionTime'' cfg
               in (Some \<lparr> detected = True,
                           module = ''BehavioralAnalysis'',
                           cheatType = (if score \<ge> 70 then wallhack_esp else suspicious_behavior),
                           severity = severityOf score,
                           confidence = c,
                           evidence =
                             \<lparr> metrics = [(''reactionTime'', data event ''reactionTime''),
                                          (''preFiringRate'', data event ''preFiringRate''),
                                          (''wallTrackEvents'', data event ''wallTrackEvents''),
                                          (''spawnPrediction'', data event ''spawnPrediction'')],
                               flags = flags',
                               baselineSamples = length (vals profile),
                               baselineDeviations = [],
                               crossSignalCorrelation = correlatedModules corr \<rparr>,
                           description = Description ''Behavioral analysis flagged'' (length flags') flags',
                           recommendedAction = resolveAction st2 c cfg \<rparr>,
                   storeBaseline (playerId event) baseline'' st2))))"

section \<open>Integration entry point (sentinel-core.ts)\<close>

text \<open>
  A handler of the registry is called inside \<open>try\<close>: it returns a result or \<open>null\<close>, or it
  throws, having mutated the module state up to that point. The five modules of this
  repository return normally on every well-typed event.
\<close>

datatype js_error = JsError string

type_synonym handler_fn =
  "TelemetryEvent \<Rightarrow> SentinelConfig option \<Rightarrow> engine
     \<Rightarrow> (js_error + DetectionResult option) \<times> engine"

record detection_module =
  name :: string
  handler :: handler_fn

definition returns :: "(TelemetryEvent \<Rightarrow> SentinelConfig option \<Rightarrow> engine
     \<Rightarrow> DetectionResult option \<times> engine) \<Rightarrow> handler_fn" where
  "returns f event cfg st = (case f event cfg st of (r, st') \<Rightarrow> (Inr r, st'))"

text \<open>
  The observer registered with \<open>onDetection\<close> is awaited inside the same \<open>try\<close>; it
  completes (\<open>None\<close>) or throws (\<open>Some\<close>), and what else it does is outside the engine.
\<close>

type_synonym DetectionCallback = "DetectionResult \<Rightarrow> TelemetryEvent \<Rightarrow> js_error option"

text \<open>
  The \<open>for\<close> loop over the registry. The \<open>catch\<close> block only writes to the console, which is
  not modelled, so a throwing handler and a throwing observer both continue with the
  next module.
\<close>

fun dispatch ::
  "detection_module list \<Rightarrow> DetectionCallback option \<Rightarrow> TelemetryEvent
     \<Rightarrow> SentinelConfig option \<Rightarrow> DetectionResult list \<Rightarrow> engine
     \<Rightarrow> DetectionResult list \<times> engine" where
  "dispatch [] cb event cfg results st = (results, st)"
| "dispatch (m # ms) cb event cfg results st =
     (case handler m event cfg st of
        (Inl err, st') \<Rightarrow> dispatch ms cb event cfg results st'
      | (Inr None, st') \<Rightarrow> dispatch ms cb event cfg results st'
      | (Inr (Some result), st') \<Rightarrow>
          if detected result
          then (let results' = results @ [result]
                in case cb of
                     None \<Rightarrow> dispatch ms cb event cfg results' st'
                   | Some callback \<Rightarrow>
                       (case callback result event of
                          None \<Rightarrow> dispatch ms cb event cfg results' st'
                        | Some err \<Rightarrow> dispatch ms cb event cfg results' st'))
          else dispatch ms cb event cfg results st')"

definition processTelemetry_with ::
  "detection_module list \<Rightarrow> DetectionCallback option \<Rightarrow> TelemetryEvent
     \<Rightarrow> SentinelConfig option \<Rightarrow> engine \<Rightarrow> DetectionResult list \<times> engine" where
  "processTelemetry_with mods cb event cfg st =
     (let results = []
      in if getPipelineState st AND 1 = 0 then (results, st)
         else dispatch mods cb event cfg results st)"

text \<open>The registry \<open>MODULES\<close>, in registration order.\<close>

definition MODULES :: "detection_module list" where
  "MODULES =
     [\<lparr> name = ''AimAnalysis'', handler = returns analyzeAim \<rparr>,
      \<lparr> name = ''InputAnalysis'', handler = returns analyzeInput \<rparr>,
      \<lparr> name = ''PacketAnalysis'', handler = returns analyzePackets \<rparr>,
      \<lparr> name = ''StatisticalAnalysis'', handler = returns analyzeStats \<rparr>,
      \<lparr> name = ''BehavioralAnalysis'', handler = returns analyzeBehavior \<rparr>]"

definition processTelemetry ::
  "DetectionCallback option \<Rightarrow> TelemetryEvent \<Rightarrow> SentinelConfig option \<Rightarrow> engine
     \<Rightarrow> DetectionResult list \<times> engine" where
  "processTelemetry = processTelemetry_with MODULES"

section \<open>Replaying a sequence of events\<close>

text \<open>
  A freshly initialized engine is the module state after loading: no player is known and
  the license subsystem has set the token. A replay feeds the events to
  \<open>processTelemetry\<close> one after the other, each call finished before the next begins,
  and collects the sequences it returns.
\<close>

definition freshEngine :: "bool \<Rightarrow> real stream \<Rightarrow> engine" where
  "freshEngine response clk =
     initLicenseSubsystem response
       \<lparr> pipelineToken = 0, playerBaselines = Map.empty, clock = clk \<rparr>"

fun replay ::
  "DetectionCallback option \<Rightarrow> SentinelConfig option \<Rightarrow> TelemetryEvent list \<Rightarrow> engine
     \<Rightarrow> DetectionResult list list" where
  "replay cb cfg [] st = []"
| "replay cb cfg (event # events) st =
     (case processTelemetry cb event cfg st of
        (results, st') \<Rightarrow> results # replay cb cfg events st')"

text \<open>
  Moving every wall-clock value by \<open>s\<close>: the timestamps a baseline stores and the readings
  the clock will give.
\<close>

definition shiftD :: "real \<Rightarrow> TimestampedDetection \<Rightarrow> TimestampedDetection" where
  "shiftD s d = d\<lparr>d_timestamp := d_timestamp d + s\<rparr>"

definition shiftB :: "real \<Rightarrow> PlayerBaseline \<Rightarrow> PlayerBaseline" where
  "shiftB s b = b\<lparr>createdAt := createdAt b + s,
                  recentDetections := map (shiftD s) (recentDetections b)\<rparr>"

definition shiftE :: "real \<Rightarrow> engine \<Rightarrow> engine" where
  "shiftE s st = st\<lparr>playerBaselines := map_option (shiftB s) \<circ> playerBaselines st,
                    clock := smap (\<lambda>t. t + s) (clock st)\<rparr>"

section \<open>The deviation test as the specification words it\<close>

text \<open>
  Section 4.3 of the specification, \<open>evaluate(value, window, config)\<close>: too little history,
  then effectively constant history, then the z-score against the threshold.
\<close>

definition DeviationEvaluator_spec :: "real \<Rightarrow> RollingSamples \<Rightarrow> SentinelConfig \<Rightarrow> deviation" where
  "DeviationEvaluator_spec v window config =
     (if real (length (vals window)) < minSamplesForBaseline config
        then \<lparr> deviates = False, zScore = 0 \<rparr>
      else if stddev window < 0.001
        then \<lparr> deviates = \<bar>v - mean window\<bar> > 0.001, zScore = 0 \<rparr>
      else \<lparr> deviates = \<bar>(v - mean window) / stddev window\<bar> > deviationThreshold config,
             zScore = (v - mean window) / stddev window \<rparr>)"

section \<open>Auxiliary facts\<close>

lemma uniqueInOrder_aux:
  "distinct acc \<Longrightarrow>
   distinct (foldl (\<lambda>acc x. if x \<in> set acc then acc else acc @ [x]) acc xs) \<and>
   set (foldl (\<lambda>acc x. if x \<in> set acc then acc else acc @ [x]) acc xs) = set acc \<union> set xs"
  by (induction xs arbitrary: acc) auto

lemma distinct_uniqueInOrder: "distinct (uniqueInOrder xs)"
  using uniqueInOrder_aux [of "[]" xs] by (simp add: uniqueInOrder_def)

lemma set_uniqueInOrder: "set (uniqueInOrder xs) = set xs"
  using uniqueInOrder_aux [of "[]" xs] by (simp add: uniqueInOrder_def)

lemma length_uniqueInOrder: "length (uniqueInOrder xs) = card (set xs)"
  using distinct_card [OF distinct_uniqueInOrder, of xs] by (simp add: set_uniqueInOrder)

lemma foldl_plus_sum_list: "foldl (\<lambda>sum v. sum + v) a xs = a + sum_list (xs :: real list)"
  by (induction xs arbitrary: a) auto

lemma foldl_sq_sum_list:
  "foldl (\<lambda>sum v. sum + (v - m) ^ 2) a xs = a + sum_list (map (\<lambda>v. (v - m) ^ 2) (xs :: real list))"
  by (induction xs arbitrary: a) auto

lemma calculateMean_eq: "xs \<noteq> [] \<Longrightarrow> calculateMean xs = sum_list xs / real (length xs)"
  by (simp add: calculateMean_def foldl_plus_sum_list)

lemma maxSamples_pushSample: "maxSamples (pushSample p v) = maxSamples p"
  by (simp add: pushSample_def Let_def)

lemma vals_pushSample:
  "vals (pushSample p v) =
     (if real (length (vals p)) + 1 > maxSamples p then tl (vals p @ [v]) else vals p @ [v])"
  by (simp add: pushSample_def Let_def)

lemma foldl_pushSample_maxSamples: "maxSamples (foldl pushSample p xs) = maxSamples p"
  by (induction xs arbitrary: p) (simp_all add: maxSamples_pushSample)

lemma foldl_pushSample_vals:
  assumes "1 \<le> c"
  shows "vals (foldl pushSample \<lparr> vals = [], maxSamples = real c, mean = 0, stddev = 0 \<rparr> xs)
           = drop (length xs - c) xs"
proof (induction xs rule: rev_induct)
  case Nil
  show ?case by simp
next
  case (snoc x xs)
  let ?p = "foldl pushSample \<lparr> vals = [], maxSamples = real c, mean = 0, stddev = 0 \<rparr> xs"
  have m: "maxSamples ?p = real c" by (simp add: foldl_pushSample_maxSamples)
  show ?case
  proof (cases "length xs < c")
    case True
    then show ?thesis using snoc m by (simp add: vals_pushSample)
  next
    case False
    then have ne: "drop (length xs - c) xs \<noteq> []" using assms by simp
    have len: "length (drop (length xs - c) xs) = c" using False by simp
    have "vals (pushSample ?p x) = tl (drop (length xs - c) xs @ [x])"
      using snoc m len by (simp add: vals_pushSample)
    also have "\<dots> = drop (Suc (length xs - c)) xs @ [x]"
      using ne by (simp add: drop_Suc tl_drop)
    also have "\<dots> = drop (length (xs @ [x]) - c) (xs @ [x])"
      using False assms by (simp add: Suc_diff_le)
    finally show ?thesis by simp
  qed
qed

subsection \<open>The dispatch loop\<close>

lemma dispatch_Cons:
  "dispatch (m # ms) cb event cfg results st =
     (case handler m event cfg st of
        (Inl err, st') \<Rightarrow> dispatch ms cb event cfg results st'
      | (Inr None, st') \<Rightarrow> dispatch ms cb event cfg results st'
      | (Inr (Some result), st') \<Rightarrow>
          dispatch ms cb event cfg (if detected result then results @ [result] else results) st')"
  by (simp add: Let_def split: prod.splits sum.splits option.splits)

lemma dispatch_append:
  "dispatch (ms1 @ ms2) cb event cfg results st
     = (case dispatch ms1 cb event cfg results st of
          (results', st') \<Rightarrow> dispatch ms2 cb event cfg results' st')"
  by (induction ms1 arbitrary: results st)
     (auto simp: Let_def split: prod.splits sum.splits option.splits)

lemma dispatch_results:
  "dispatch ms cb event cfg results st
     = (results @ fst (dispatch ms cb event cfg [] st), snd (dispatch ms cb event cfg [] st))"
proof (induction ms arbitrary: results st)
  case Nil
  show ?case by simp
next
  case (Cons m ms)
  show ?case
    using Cons.IH [of "results" ] Cons.IH [of "results @ [r]" for r] Cons.IH [of "[r]" for r]
    by (auto simp: Let_def split: prod.splits sum.splits option.splits)
qed

subsection \<open>Score and confidence of a reported detection\<close>

lemma confidence_range:
  "40 \<le> (score::real) \<Longrightarrow> 0.40 \<le> min (score / 100) 0.99 \<and> min (score / 100) 0.99 \<le> 0.99"
  by (simp add: min_def)

lemma analyzeAim_confidence:
  "analyzeAim event cfg st = (Some r, st') \<Longrightarrow>
     40 \<le> snd (fst (snd (analyzeAim_scoring event cfg st)))
     \<and> confidence r = min (snd (fst (snd (analyzeAim_scoring event cfg st))) / 100) 0.99"
  by (auto simp: analyzeAim_def Let_def split_beta split: if_splits)

lemma analyzeInput_confidence:
  "analyzeInput event cfg st = (Some r, st') \<Longrightarrow>
     40 \<le> snd (fst (snd (analyzeInput_scoring event cfg st)))
     \<and> confidence r = min (snd (fst (snd (analyzeInput_scoring event cfg st))) / 100) 0.99"
  by (auto simp: analyzeInput_def Let_def split_beta split: if_splits)

lemma analyzePackets_confidence:
  "analyzePackets event cfg st = (Some r, st') \<Longrightarrow>
     40 \<le> snd (fst (snd (analyzePackets_scoring event cfg st)))
     \<and> confidence r = min (snd (fst (snd (analyzePackets_scoring event cfg st))) / 100) 0.99"
  by (auto simp: analyzePackets_def Let_def split_beta split: if_splits)

lemma analyzeStats_confidence:
  "analyzeStats event cfg st = (Some r, st') \<Longrightarrow>
     40 \<le> snd (fst (snd (analyzeStats_scoring event cfg st)))
     \<and> confidence r = min (snd (fst (snd (analyzeStats_scoring event cfg st))) / 100) 0.99"
  by (auto simp: analyzeStats_def Let_def split_beta split: if_splits)

lemma analyzeBehavior_confidence:
  "analyzeBehavior event cfg st = (Some r, st') \<Longrightarrow>
     40 \<le> snd (fst (snd (analyzeBehavior_scoring event cfg st)))
     \<and> confidence r = min (snd (fst (snd (analyzeBehavior_scoring event cfg st))) / 100) 0.99"
  by (auto simp: analyzeBehavior_def Let_def split_beta split: if_splits)

lemma returns_Some:
  "returns f event cfg st = (Inr (Some r), st') \<longleftrightarrow> f event cfg st = (Some r, st')"
  by (auto simp: returns_def split: prod.splits)

subsection \<open>The end-to-end aim scenario\<close>

lemma analyzeAim_scoring_scenario:
  assumes "playerBaselines st (playerId event) = None"
    and "data event = [''snapAngle'' \<mapsto> 150, ''timeToTarget'' \<mapsto> 50]"
    and "cfg = None \<or> cfg = Some DEFAULT_CONFIG"
  shows "fst (snd (analyzeAim_scoring event cfg st))
           = ([Flag ''Snap angle exceeds human biomechanical limit'' [150],
               Flag ''Time-to-target below human neural transmission minimum'' [50]], 55)"
  using assms
  by (auto simp: analyzeAim_scoring_def analyzeAim_checks_def getOrCreateBaseline_def Date_now_def
      getMetricProfile_def storeProfile_def pushSample_def calculateCrossSignalBonus_def
      crossSignalStep_def fieldCheck_def Let_def config_or_default_def DEFAULT_CONFIG_def)


lemma analyzeAim_scenario:
  assumes "getPipelineState st AND 1 \<noteq> 0"
    and "playerBaselines st (playerId event) = None"
    and "eventType event = aim_data"
    and "data event = [''snapAngle'' \<mapsto> 150, ''timeToTarget'' \<mapsto> 50]"
    and "cfg = None \<or> cfg = Some DEFAULT_CONFIG"
  shows "\<exists>r st'. analyzeAim event cfg st = (Some r, st') \<and> detected r
           \<and> module r = ''AimAnalysis'' \<and> confidence r = 0.55 \<and> severity r = medium
           \<and> recommendedAction r = flag"
proof -
  have sc: "fst (snd (analyzeAim_scoring event cfg st))
           = ([Flag ''Snap angle exceeds human biomechanical limit'' [150],
               Flag ''Time-to-target below human neural transmission minimum'' [50]], 55)"
    using assms(2,4,5) by (rule analyzeAim_scoring_scenario)
  have tok: "pipelineToken (snd (snd (snd (analyzeAim_scoring event cfg st)))) = pipelineToken st"
    by (simp add: analyzeAim_scoring_def getOrCreateBaseline_def Date_now_def Let_def split_beta
        split: option.split)
  show ?thesis
    using assms(1,3,5) sc tok
    by (auto simp: analyzeAim_def Let_def split_beta severityOf_def resolveAction_def
        recordDetection_def Date_now_def getPipelineState_def config_or_default_def
        DEFAULT_CONFIG_def min_def)
qed

lemma dispatch_MODULES_aim_scenario:
  assumes "getPipelineState st AND 1 \<noteq> 0"
    and "playerBaselines st (playerId event) = None"
    and "eventType event = aim_data"
    and "data event = [''snapAngle'' \<mapsto> 150, ''timeToTarget'' \<mapsto> 50]"
    and "cfg = None \<or> cfg = Some DEFAULT_CONFIG"
  shows "\<exists>r st'. dispatch MODULES cb event cfg [] st = ([r], st') \<and> detected r
           \<and> module r = ''AimAnalysis'' \<and> confidence r = 0.55 \<and> severity r = medium
           \<and> recommendedAction r = flag"
proof -
  obtain r st' where r: "analyzeAim event cfg st = (Some r, st')" "detected r"
      "module r = ''AimAnalysis''" "confidence r = 0.55" "severity r = medium"
      "recommendedAction r = flag"
    using analyzeAim_scenario [OF assms] by blast
  have "dispatch MODULES cb event cfg [] st = ([r], st')"
    using r(1,2) assms(3)
    by (simp add: MODULES_def dispatch_Cons returns_def analyzeInput_def analyzePackets_def
        analyzeStats_def analyzeBehavior_def del: dispatch.simps(2))
  with r show ?thesis by blast
qed

subsection \<open>Shifting the wall clock\<close>

lemma pipelineToken_shiftE [simp]: "pipelineToken (shiftE s st) = pipelineToken st"
  by (simp add: shiftE_def)

lemma deviatesFromBaseline_shiftE [simp]:
  "deviatesFromBaseline (shiftE s st) = deviatesFromBaseline st"
  by (intro ext) (simp add: deviatesFromBaseline_def)

lemma resolveAction_shiftE [simp]: "resolveAction (shiftE s st) = resolveAction st"
  by (intro ext) (simp add: resolveAction_def)

lemma getMetricProfile_shiftB:
  "getMetricProfile (shiftB s b) n cfg
     = (fst (getMetricProfile b n cfg), shiftB s (snd (getMetricProfile b n cfg)))"
  by (simp add: getMetricProfile_def shiftB_def Let_def split: option.split)

lemma storeProfile_shiftB: "storeProfile n p (shiftB s b) = shiftB s (storeProfile n p b)"
  by (simp add: storeProfile_def shiftB_def)

lemma calculateCrossSignalBonus_shiftB [simp]:
  "calculateCrossSignalBonus (shiftB s b) = calculateCrossSignalBonus b"
  by (simp add: calculateCrossSignalBonus_def shiftB_def shiftD_def comp_def)

lemma storeBaseline_shift:
  "storeBaseline pid (shiftB s b) (shiftE s st) = shiftE s (storeBaseline pid b st)"
  by (simp add: storeBaseline_def shiftE_def fun_eq_iff)

lemma filter_shiftD:
  "filter (\<lambda>d. d_timestamp d > t + s - w) (map (shiftD s) ds)
     = map (shiftD s) (filter (\<lambda>d. d_timestamp d > t - w) ds)"
  by (induction ds) (simp_all add: shiftD_def)

lemma getOrCreateBaseline_shift:
  "getOrCreateBaseline pid cfg (shiftE s st)
     = (shiftB s (fst (getOrCreateBaseline pid cfg st)),
        shiftE s (snd (getOrCreateBaseline pid cfg st)))"
  by (cases "playerBaselines st pid")
     (simp_all add: getOrCreateBaseline_def Date_now_def Let_def shiftE_def shiftB_def
        filter_shiftD fun_eq_iff)

lemma recordDetection_shift:
  "recordDetection (shiftB s b) m c (shiftE s st)
     = (shiftB s (fst (recordDetection b m c st)), shiftE s (snd (recordDetection b m c st)))"
  by (simp add: recordDetection_def Date_now_def Let_def shiftE_def shiftB_def shiftD_def
      map_tl)

lemma analyzeAim_checks_shift:
  "analyzeAim_checks (shiftE s st) d cfg (shiftB s b)
     = (shiftB s (fst (analyzeAim_checks st d cfg b)), snd (analyzeAim_checks st d cfg b))"
  by (cases "d ''snapAngle''"; cases "d ''trackingSmoothness''")
     (simp_all add: analyzeAim_checks_def Let_def split_beta getMetricProfile_shiftB
        storeProfile_shiftB)

lemma analyzeInput_checks_shift:
  "analyzeInput_checks (shiftE s st) d cfg (shiftB s b)
     = (shiftB s (fst (analyzeInput_checks st d cfg b)), snd (analyzeInput_checks st d cfg b))"
  by (cases "d ''inputEntropy''"; cases "d ''timingVariance''")
     (simp_all add: analyzeInput_checks_def Let_def split_beta getMetricProfile_shiftB
        storeProfile_shiftB)

lemma analyzePackets_checks_shift:
  "analyzePackets_checks (shiftE s st) d cfg (shiftB s b)
     = (shiftB s (fst (analyzePackets_checks st d cfg b)), snd (analyzePackets_checks st d cfg b))"
  by (cases "d ''packetRate''")
     (simp_all add: analyzePackets_checks_def Let_def split_beta getMetricProfile_shiftB
        storeProfile_shiftB)

lemma analyzeStats_checks_shift:
  "analyzeStats_checks (shiftE s st) d cfg (shiftB s b)
     = (shiftB s (fst (analyzeStats_checks st d cfg b)), snd (analyzeStats_checks st d cfg b))"
  by (cases "d ''kdRatio''"; cases "d ''winRate''")
     (simp_all add: analyzeStats_checks_def Let_def split_beta getMetricProfile_shiftB
        storeProfile_shiftB)

lemma analyzeBehavior_checks_shift:
  "analyzeBehavior_checks (shiftE s st) d cfg (shiftB s b)
     = (shiftB s (fst (analyzeBehavior_checks st d cfg b)), snd (analyzeBehavior_checks st d cfg b))"
  by (cases "d ''reactionTime''")
     (simp_all add: analyzeBehavior_checks_def Let_def split_beta getMetricProfile_shiftB
        storeProfile_shiftB)

lemma analyzeAim_scoring_shift:
  "analyzeAim_scoring event cfg (shiftE s st)
     = (case analyzeAim_scoring event cfg st of
          (b, fs, corr, st1) \<Rightarrow> (shiftB s b, fs, corr, shiftE s st1))"
  by (simp add: analyzeAim_scoring_def Let_def split_beta getOrCreateBaseline_shift
      analyzeAim_checks_shift)

lemma analyzeAim_shift:
  "analyzeAim event cfg (shiftE s st)
     = (fst (analyzeAim event cfg st), shiftE s (snd (analyzeAim event cfg st)))"
  by (simp add: analyzeAim_def analyzeAim_scoring_shift Let_def split_beta storeBaseline_shift
      recordDetection_shift getMetricProfile_shiftB)

lemma analyzeInput_scoring_shift:
  "analyzeInput_scoring event cfg (shiftE s st)
     = (case analyzeInput_scoring event cfg st of
          (b, fs, corr, st1) \<Rightarrow> (shiftB s b, fs, corr, shiftE s st1))"
  by (simp add: analyzeInput_scoring_def Let_def split_beta getOrCreateBaseline_shift
      analyzeInput_checks_shift)

lemma analyzeInput_shift:
  "analyzeInput event cfg (shiftE s st)
     = (fst (analyzeInput event cfg st), shiftE s (snd (analyzeInput event cfg st)))"
  by (simp add: analyzeInput_def analyzeInput_scoring_shift Let_def split_beta storeBaseline_shift
      recordDetection_shift getMetricProfile_shiftB)

lemma analyzePackets_scoring_shift:
  "analyzePackets_scoring event cfg (shiftE s st)
     = (case analyzePackets_scoring event cfg st of
          (b, fs, corr, st1) \<Rightarrow> (shiftB s b, fs, corr, shiftE s st1))"
  by (simp add: analyzePackets_scoring_def Let_def split_beta getOrCreateBaseline_shift
      analyzePackets_checks_shift)

lemma analyzePackets_shift:
  "analyzePackets event cfg (shiftE s st)
     = (fst (analyzePackets event cfg st), shiftE s (snd (analyzePackets event cfg st)))"
  by (simp add: analyzePackets_def analyzePackets_scoring_shift Let_def split_beta storeBaseline_shift
      recordDetection_shift getMetricProfile_shiftB)

lemma analyzeStats_scoring_shift:
  "analyzeStats_scoring event cfg (shiftE s st)
     = (case analyzeStats_scoring event cfg st of
          (b, fs, corr, st1) \<Rightarrow> (shiftB s b, fs, corr, shiftE s st1))"
  by (simp add: analyzeStats_scoring_def Let_def split_beta getOrCreateBaseline_shift
      analyzeStats_checks_shift)

lemma analyzeStats_shift:
  "analyzeStats event cfg (shiftE s st)
     = (fst (analyzeStats event cfg st), shiftE s (snd (analyzeStats event cfg st)))"
  by (simp add: analyzeStats_def analyzeStats_scoring_shift Let_def split_beta storeBaseline_shift
      recordDetection_shift getMetricProfile_shiftB)

lemma analyzeBehavior_scoring_shift:
  "analyzeBehavior_scoring event cfg (shiftE s st)
     = (case analyzeBehavior_scoring event cfg st of
          (b, fs, corr, st1) \<Rightarrow> (shiftB s b, fs, corr, shiftE s st1))"
  by (simp add: analyzeBehavior_scoring_def Let_def split_beta getOrCreateBaseline_shift
      analyzeBehavior_checks_shift)

lemma analyzeBehavior_shift:
  "analyzeBehavior event cfg (shiftE s st)
     = (fst (analyzeBehavior event cfg st), shiftE s (snd (analyzeBehavior event cfg st)))"
  by (simp add: analyzeBehavior_def analyzeBehavior_scoring_shift Let_def split_beta storeBaseline_shift
      recordDetection_shift getMetricProfile_shiftB)

lemma returns_shift:
  assumes "\<And>event cfg st. f event cfg (shiftE s st)
             = (fst (f event cfg st), shiftE s (snd (f event cfg st)))"
  shows "returns f event cfg (shiftE s st)
           = (fst (returns f event cfg st), shiftE s (snd (returns f event cfg st)))"
  by (simp add: returns_def assms split_beta)

lemma dispatch_shift:
  assumes "\<And>m event cfg st. m \<in> set ms \<Longrightarrow>
             handler m event cfg (shiftE s st)
               = (fst (handler m event cfg st), shiftE s (snd (handler m event cfg st)))"
  shows "dispatch ms cb event cfg results (shiftE s st)
           = (fst (dispatch ms cb event cfg results st),
              shiftE s (snd (dispatch ms cb event cfg results st)))"
  using assms
proof (induction ms arbitrary: results st)
  case Nil
  show ?case by simp
next
  case (Cons m ms)
  have h: "handler m event cfg (shiftE s st)
             = (fst (handler m event cfg st), shiftE s (snd (handler m event cfg st)))"
    using Cons.prems by simp
  have ih: "\<And>results st. dispatch ms cb event cfg results (shiftE s st)
           = (fst (dispatch ms cb event cfg results st),
              shiftE s (snd (dispatch ms cb event cfg results st)))"
    using Cons.IH Cons.prems by simp
  show ?case
    by (simp add: dispatch_Cons h ih split_beta del: dispatch.simps(2)
        split: sum.split option.split)
qed

lemma MODULES_shift:
  "m \<in> set MODULES \<Longrightarrow>
     handler m event cfg (shiftE s st)
       = (fst (handler m event cfg st), shiftE s (snd (handler m event cfg st)))"
  by (auto simp: MODULES_def intro!: returns_shift analyzeAim_shift analyzeInput_shift
      analyzePackets_shift analyzeStats_shift analyzeBehavior_shift)

lemma processTelemetry_shift:
  "processTelemetry cb event cfg (shiftE s st)
     = (fst (processTelemetry cb event cfg st), shiftE s (snd (processTelemetry cb event cfg st)))"
  using dispatch_shift [of MODULES s cb event cfg "[]" st, OF MODULES_shift]
  by (simp add: processTelemetry_def processTelemetry_with_def getPipelineState_def)

lemma replay_shift: "replay cb cfg events (shiftE s st) = replay cb cfg events st"
  by (induction events arbitrary: st) (simp_all add: processTelemetry_shift split_beta)

lemma freshEngine_shift: "freshEngine response (smap (\<lambda>t. t + s) clk) = shiftE s (freshEngine response clk)"
  by (simp add: freshEngine_def initLicenseSubsystem_def shiftE_def Let_def fun_eq_iff)

subsection \<open>Two replays of the same three events\<close>

lemmas engine_defs =
  processTelemetry_def processTelemetry_with_def MODULES_def returns_def dispatch_Cons
  analyzeAim_def analyzeInput_def analyzePackets_def analyzeStats_def analyzeBehavior_def
  analyzeAim_scoring_def analyzeInput_scoring_def analyzePackets_scoring_def
  analyzeStats_scoring_def analyzeBehavior_scoring_def
  analyzeAim_checks_def analyzeInput_checks_def analyzePackets_checks_def
  analyzeStats_checks_def analyzeBehavior_checks_def
  getOrCreateBaseline_def Date_now_def getMetricProfile_def storeProfile_def storeBaseline_def
  pushSample_def calculateMean_def calculateStdDev_def deviatesFromBaseline_def
  resolveAction_def recordDetection_def calculateCrossSignalBonus_def uniqueInOrder_def
  crossSignalStep_def fieldCheck_def severityOf_def getPipelineState_def
  config_or_default_def DEFAULT_CONFIG_def Let_def

lemma replay_steady_clock:
  "map (map confidence) (replay None None
     [\<lparr> playerId = ''p1'', sessionId = ''s1'', lobbyId = ''l1'', matchId = ''m1'',
        timestamp = 0, eventType = aim_data,
        data = [''snapAngle'' \<mapsto> 150, ''timeToTarget'' \<mapsto> 50] \<rparr>,
      \<lparr> playerId = ''p1'', sessionId = ''s1'', lobbyId = ''l1'', matchId = ''m1'',
        timestamp = 1, eventType = input_data,
        data = [''inputEntropy'' \<mapsto> 0.1, ''timingVariance'' \<mapsto> 0.1] \<rparr>,
      \<lparr> playerId = ''p1'', sessionId = ''s1'', lobbyId = ''l1'', matchId = ''m1'',
        timestamp = 2, eventType = aim_data,
        data = [''snapAngle'' \<mapsto> 150, ''timeToTarget'' \<mapsto> 50] \<rparr>]
     (freshEngine False (sconst 0))) = [[0.55], [0.55], [0.63]]"
  by (simp add: engine_defs freshEngine_def initLicenseSubsystem_def del: dispatch.simps(2))

lemma replay_slow_clock:
  "map (map confidence) (replay None None
     [\<lparr> playerId = ''p1'', sessionId = ''s1'', lobbyId = ''l1'', matchId = ''m1'',
        timestamp = 0, eventType = aim_data,
        data = [''snapAngle'' \<mapsto> 150, ''timeToTarget'' \<mapsto> 50] \<rparr>,
      \<lparr> playerId = ''p1'', sessionId = ''s1'', lobbyId = ''l1'', matchId = ''m1'',
        timestamp = 1, eventType = input_data,
        data = [''inputEntropy'' \<mapsto> 0.1, ''timingVariance'' \<mapsto> 0.1] \<rparr>,
      \<lparr> playerId = ''p1'', sessionId = ''s1'', lobbyId = ''l1'', matchId = ''m1'',
        timestamp = 2, eventType = aim_data,
        data = [''snapAngle'' \<mapsto> 150, ''timeToTarget'' \<mapsto> 50] \<rparr>]
     (freshEngine False (0 ## 0 ## 0 ## 100000 ## 100000 ## sconst 200000))) = [[0.55], [0.55], [0.55]]"
  by (simp add: engine_defs freshEngine_def initLicenseSubsystem_def del: dispatch.simps(2))

subsection \<open>One detection from each module\<close>

lemma sample_detections:
  "fst (analyzeAim
     \<lparr> playerId = ''p1'', sessionId = ''s1'', lobbyId = ''l1'', matchId = ''m1'',
       timestamp = 0, eventType = aim_data,
       data = [''snapAngle'' \<mapsto> 150, ''timeToTarget'' \<mapsto> 50] \<rparr>
     None \<lparr> pipelineToken = 1, playerBaselines = Map.empty, clock = sconst 0 \<rparr>) \<noteq> None"
  "fst (analyzeInput
     \<lparr> playerId = ''p1'', sessionId = ''s1'', lobbyId = ''l1'', matchId = ''m1'',
       timestamp = 0, eventType = input_data,
       data = [''inputEntropy'' \<mapsto> 0.1, ''timingVariance'' \<mapsto> 0.1] \<rparr>
     None \<lparr> pipelineToken = 1, playerBaselines = Map.empty, clock = sconst 0 \<rparr>) \<noteq> None"
  "fst (analyzePackets
     \<lparr> playerId = ''p1'', sessionId = ''s1'', lobbyId = ''l1'', matchId = ''m1'',
       timestamp = 0, eventType = packet_data,
       data = [''burstCount'' \<mapsto> 20, ''suspiciousPayloads'' \<mapsto> 5] \<rparr>
     None \<lparr> pipelineToken = 1, playerBaselines = Map.empty, clock = sconst 0 \<rparr>) \<noteq> None"
  "fst (analyzeStats
     \<lparr> playerId = ''p1'', sessionId = ''s1'', lobbyId = ''l1'', matchId = ''m1'',
       timestamp = 0, eventType = stats_data,
       data = [''winRate'' \<mapsto> 90, ''accuracyZScore'' \<mapsto> 4] \<rparr>
     None \<lparr> pipelineToken = 1, playerBaselines = Map.empty, clock = sconst 0 \<rparr>) \<noteq> None"
  "fst (analyzeBehavior
     \<lparr> playerId = ''p1'', sessionId = ''s1'', lobbyId = ''l1'', matchId = ''m1'',
       timestamp = 0, eventType = behavior_data,
       data = [''wallTrackEvents'' \<mapsto> 6, ''cameraBehavior'' \<mapsto> 0.9] \<rparr>
     None \<lparr> pipelineToken = 1, playerBaselines = Map.empty, clock = sconst 0 \<rparr>) \<noteq> None"
  by (simp_all add: engine_defs)

lemma fst_not_None: "fst p \<noteq> None \<Longrightarrow> \<exists>r st'. p = (Some r, st')"
  by (cases p) auto

section \<open>Verified properties\<close>

text \<open>
  C1. Under the default configuration (no config, or \<open>DEFAULT_CONFIG\<close>) and with the engine
  ready, \<open>processTelemetry\<close> on an \<open>aim_data\<close> event whose payload holds \<open>snapAngle = 150\<close>
  and \<open>timeToTarget = 50\<close> and nothing else, for a player the engine has no baseline for,
  returns exactly one detection: from \<open>AimAnalysis\<close>, with the \<open>score\<close> variable of
  \<open>analyzeAim\<close> at \<open>55\<close>, confidence \<open>0.55\<close>, severity \<open>medium\<close> and recommended action
  \<open>flag\<close>, whichever observer is registered.
\<close>

theorem processTelemetry_aim_scenario:
  assumes "getPipelineState st AND 1 \<noteq> 0"
    and "playerBaselines st (playerId event) = None"
    and "eventType event = aim_data"
    and "data event = [''snapAngle'' \<mapsto> 150, ''timeToTarget'' \<mapsto> 50]"
    and "cfg = None \<or> cfg = Some DEFAULT_CONFIG"
  shows "\<exists>r. fst (processTelemetry cb event cfg st) = [r] \<and> detected r
           \<and> module r = ''AimAnalysis''
           \<and> snd (fst (snd (analyzeAim_scoring event cfg st))) = 55
           \<and> confidence r = 0.55 \<and> severity r = medium \<and> recommendedAction r = flag"
proof -
  obtain r st' where r: "dispatch MODULES cb event cfg [] st = ([r], st')" "detected r"
      "module r = ''AimAnalysis''" "confidence r = 0.55" "severity r = medium"
      "recommendedAction r = flag"
    using dispatch_MODULES_aim_scenario [OF assms] by blast
  have "fst (processTelemetry cb event cfg st) = [r]"
    using r(1) assms(1) by (simp add: processTelemetry_def processTelemetry_with_def)
  moreover have "snd (fst (snd (analyzeAim_scoring event cfg st))) = 55"
    using analyzeAim_scoring_scenario [OF assms(2,4,5)] by simp
  ultimately show ?thesis using r by blast
qed

theorem processTelemetry_aim_scenario_witness:
  "getPipelineState \<lparr> pipelineToken = 1, playerBaselines = Map.empty, clock = sconst 0 \<rparr>
     AND 1 \<noteq> 0
   \<and> (\<exists>r. fst (processTelemetry None
               \<lparr> playerId = ''p1'', sessionId = ''s1'', lobbyId = ''l1'', matchId = ''m1'',
                 timestamp = 0, eventType = aim_data,
                 data = [''snapAngle'' \<mapsto> 150, ''timeToTarget'' \<mapsto> 50] \<rparr>
               None \<lparr> pipelineToken = 1, playerBaselines = Map.empty, clock = sconst 0 \<rparr>) = [r]
          \<and> module r = ''AimAnalysis'' \<and> confidence r = 0.55 \<and> severity r = medium
          \<and> recommendedAction r = flag)"
  using processTelemetry_aim_scenario
    [of "\<lparr> pipelineToken = 1, playerBaselines = Map.empty, clock = sconst 0 \<rparr>"
        "\<lparr> playerId = ''p1'', sessionId = ''s1'', lobbyId = ''l1'', matchId = ''m1'',
           timestamp = 0, eventType = aim_data,
           data = [''snapAngle'' \<mapsto> 150, ''timeToTarget'' \<mapsto> 50] \<rparr>" None None]
  by (auto simp: getPipelineState_def)

text \<open>
  C2 (as amended). With the engine ready (bit \<open>0x1\<close> of the pipeline token set),
  \<open>deviatesFromBaseline\<close> is the three-case evaluation of the specification: fewer samples
  than \<open>minSamplesForBaseline\<close> give \<open>{false, 0}\<close>; otherwise a stored stddev below \<open>0.001\<close>
  gives \<open>{|value - mean| > 0.001, 0}\<close>; otherwise the z-score \<open>(value - mean) / stddev\<close>
  with \<open>deviates = |zScore| > deviationThreshold\<close>. With the bit clear the function
  returns \<open>{false, 0}\<close> whatever the window holds. The source function assigns to nothing;
  it is a function of the window's value and returns only the verdict, so the window
  after the call is the window before it.
\<close>

theorem deviatesFromBaseline_cases:
  "(getPipelineState st AND 1 \<noteq> 0 \<longrightarrow>
      deviatesFromBaseline st v profile cfg
        = DeviationEvaluator_spec v profile (config_or_default cfg))
   \<and> (getPipelineState st AND 1 = 0 \<longrightarrow>
      deviatesFromBaseline st v profile cfg = \<lparr> deviates = False, zScore = 0 \<rparr>)"
  by (simp add: deviatesFromBaseline_def DeviationEvaluator_spec_def getPipelineState_def Let_def)

theorem deviatesFromBaseline_cases_witness:
  "getPipelineState \<lparr> pipelineToken = 1, playerBaselines = Map.empty, clock = sconst 0 \<rparr>
     AND 1 \<noteq> 0
   \<and> deviatesFromBaseline \<lparr> pipelineToken = 1, playerBaselines = Map.empty, clock = sconst 0 \<rparr>
        10 \<lparr> vals = [-1, -1, 0, 1, 1], maxSamples = 50, mean = 0, stddev = 1 \<rparr> None
       = \<lparr> deviates = True, zScore = 10 \<rparr>
   \<and> getPipelineState \<lparr> pipelineToken = 0, playerBaselines = Map.empty, clock = sconst 0 \<rparr>
     AND 1 = 0
   \<and> deviatesFromBaseline \<lparr> pipelineToken = 0, playerBaselines = Map.empty, clock = sconst 0 \<rparr>
        10 \<lparr> vals = [-1, -1, 0, 1, 1], maxSamples = 50, mean = 0, stddev = 1 \<rparr> None
       = \<lparr> deviates = False, zScore = 0 \<rparr>"
  using deviatesFromBaseline_cases
    [of "\<lparr> pipelineToken = 1, playerBaselines = Map.empty, clock = sconst 0 \<rparr>" 10
        "\<lparr> vals = [-1, -1, 0, 1, 1], maxSamples = 50, mean = 0, stddev = 1 \<rparr>" None]
    deviatesFromBaseline_cases
    [of "\<lparr> pipelineToken = 0, playerBaselines = Map.empty, clock = sconst 0 \<rparr>" 10
        "\<lparr> vals = [-1, -1, 0, 1, 1], maxSamples = 50, mean = 0, stddev = 1 \<rparr>" None]
  by (simp add: getPipelineState_def DeviationEvaluator_spec_def config_or_default_def
      DEFAULT_CONFIG_def)

text \<open>
  C2 as stated fails: the claim quantifies over every call, and with the pipeline token
  clear a window of five samples with mean \<open>0\<close> and stddev \<open>1\<close> does not yield the
  z-score \<open>10\<close> for the value \<open>10\<close>.
\<close>

theorem deviatesFromBaseline_gate_counterexample:
  "deviatesFromBaseline \<lparr> pipelineToken = 0, playerBaselines = Map.empty, clock = sconst 0 \<rparr>
      10 \<lparr> vals = [-1, -1, 0, 1, 1], maxSamples = 50, mean = 0, stddev = 1 \<rparr>
      (Some DEFAULT_CONFIG)
     \<noteq> DeviationEvaluator_spec
      10 \<lparr> vals = [-1, -1, 0, 1, 1], maxSamples = 50, mean = 0, stddev = 1 \<rparr> DEFAULT_CONFIG
   \<and> deviatesFromBaseline \<lparr> pipelineToken = 0, playerBaselines = Map.empty, clock = sconst 0 \<rparr>
      10 \<lparr> vals = [-1, -1, 0, 1, 1], maxSamples = 50, mean = 0, stddev = 1 \<rparr>
      (Some DEFAULT_CONFIG)
     = \<lparr> deviates = False, zScore = 0 \<rparr>
   \<and> DeviationEvaluator_spec
      10 \<lparr> vals = [-1, -1, 0, 1, 1], maxSamples = 50, mean = 0, stddev = 1 \<rparr> DEFAULT_CONFIG
     = \<lparr> deviates = True, zScore = 10 \<rparr>"
  by (simp add: deviatesFromBaseline_def DeviationEvaluator_spec_def config_or_default_def
      DEFAULT_CONFIG_def)

text \<open>
  C3. For a capacity \<open>c \<ge> 1\<close>, pushing \<open>c + k\<close> values one at a time into the empty window
  that \<open>getMetricProfile\<close> creates with \<open>maxSamples = c\<close> leaves exactly \<open>c\<close> values, the
  last \<open>c\<close> pushed, in push order.
\<close>

theorem pushSample_fifo_window:
  assumes "1 \<le> c" and "length xs = c + k"
  shows "vals (foldl pushSample \<lparr> vals = [], maxSamples = real c, mean = 0, stddev = 0 \<rparr> xs)
           = drop k xs
         \<and> length (vals (foldl pushSample
                \<lparr> vals = [], maxSamples = real c, mean = 0, stddev = 0 \<rparr> xs)) = c"
  using assms by (simp add: foldl_pushSample_vals)

theorem pushSample_fifo_window_witness:
  "(1::nat) \<le> 2 \<and> length [10, 20, 30, 40, 50 :: real] = 2 + 3
   \<and> vals (foldl pushSample \<lparr> vals = [], maxSamples = real (2::nat), mean = 0, stddev = 0 \<rparr>
             [10, 20, 30, 40, 50]) = [40, 50]"
  using pushSample_fifo_window [of 2 "[10, 20, 30, 40, 50]" 3] by simp

text \<open>
  C4. Right after \<open>pushSample\<close>, whatever the window held and whatever was pushed, the
  stored mean is the arithmetic mean of the current values (and \<open>0\<close> in the one case where
  no value is left, a capacity below one), the stored stddev is the sample (n-1)
  standard deviation of the current values when there are at least three, and \<open>0\<close> when
  there are fewer than three.
\<close>

theorem pushSample_statistics:
  "(vals (pushSample p v) \<noteq> [] \<longrightarrow>
      mean (pushSample p v)
        = sum_list (vals (pushSample p v)) / real (length (vals (pushSample p v))))
   \<and> (vals (pushSample p v) = [] \<longrightarrow> mean (pushSample p v) = 0)
   \<and> (3 \<le> length (vals (pushSample p v)) \<longrightarrow>
      stddev (pushSample p v)
        = sqrt (sum_list (map (\<lambda>x. (x - sum_list (vals (pushSample p v))
                                           / real (length (vals (pushSample p v)))) ^ 2)
                              (vals (pushSample p v)))
                / (real (length (vals (pushSample p v))) - 1)))
   \<and> (length (vals (pushSample p v)) < 3 \<longrightarrow> stddev (pushSample p v) = 0)"
proof -
  define ys where "ys = (if real (length (vals p @ [v])) > maxSamples p
                         then tl (vals p @ [v]) else vals p @ [v])"
  have v: "vals (pushSample p v) = ys"
    and m: "mean (pushSample p v) = calculateMean ys"
    and s: "stddev (pushSample p v) = calculateStdDev ys"
    by (simp_all add: pushSample_def Let_def ys_def)
  have m1: "ys \<noteq> [] \<longrightarrow> calculateMean ys = sum_list ys / real (length ys)"
    by (simp add: calculateMean_eq)
  have m0: "ys = [] \<longrightarrow> calculateMean ys = 0"
    by (simp add: calculateMean_def)
  have s1: "3 \<le> length ys \<longrightarrow> calculateStdDev ys
              = sqrt (sum_list (map (\<lambda>x. (x - sum_list ys / real (length ys)) ^ 2) ys)
                      / (real (length ys) - 1))"
  proof
    assume "3 \<le> length ys"
    then have "ys \<noteq> []" by auto
    then show "calculateStdDev ys
              = sqrt (sum_list (map (\<lambda>x. (x - sum_list ys / real (length ys)) ^ 2) ys)
                      / (real (length ys) - 1))"
      using \<open>3 \<le> length ys\<close>
      by (simp add: calculateStdDev_def Let_def calculateMean_eq foldl_sq_sum_list)
  qed
  have s0: "length ys < 3 \<longrightarrow> calculateStdDev ys = 0"
    by (simp add: calculateStdDev_def)
  show ?thesis unfolding v m s using m1 m0 s1 s0 by blast
qed

theorem pushSample_statistics_witness:
  "mean (pushSample \<lparr> vals = [1, 2], maxSamples = 50, mean = 1.5, stddev = 0 \<rparr> 6) = 3
   \<and> stddev (pushSample \<lparr> vals = [1, 2], maxSamples = 50, mean = 1.5, stddev = 0 \<rparr> 6)
       = sqrt 7
   \<and> stddev (pushSample \<lparr> vals = [1], maxSamples = 50, mean = 1, stddev = 0 \<rparr> 6) = 0
   \<and> mean (pushSample \<lparr> vals = [], maxSamples = 0, mean = 0, stddev = 0 \<rparr> 6) = 0"
  using pushSample_statistics [of "\<lparr> vals = [1, 2], maxSamples = 50, mean = 1.5, stddev = 0 \<rparr>" 6]
    pushSample_statistics [of "\<lparr> vals = [1], maxSamples = 50, mean = 1, stddev = 0 \<rparr>" 6]
    pushSample_statistics [of "\<lparr> vals = [], maxSamples = 0, mean = 0, stddev = 0 \<rparr>" 6]
  by (simp add: vals_pushSample)

text \<open>
  C5. \<open>calculateCrossSignalBonus\<close> returns bonus \<open>0\<close> and no module when fewer than two
  detections are recent; otherwise, with \<open>m\<close> the number of distinct module names among
  them (at least one), bonus \<open>15\<close> when \<open>m \<ge> 3\<close>, bonus \<open>8\<close> when \<open>m = 2\<close>, in both cases
  with exactly those modules, and bonus \<open>0\<close> with no module when \<open>m = 1\<close>.
\<close>

theorem calculateCrossSignalBonus_table:
  "(length (recentDetections b) < 2 \<longrightarrow>
      calculateCrossSignalBonus b = \<lparr> bonus = 0, correlatedModules = [] \<rparr>)
   \<and> (2 \<le> length (recentDetections b) \<longrightarrow>
        1 \<le> card (d_module ` set (recentDetections b))
        \<and> (3 \<le> card (d_module ` set (recentDetections b)) \<longrightarrow>
             bonus (calculateCrossSignalBonus b) = 15
             \<and> set (correlatedModules (calculateCrossSignalBonus b))
                 = d_module ` set (recentDetections b))
        \<and> (card (d_module ` set (recentDetections b)) = 2 \<longrightarrow>
             bonus (calculateCrossSignalBonus b) = 8
             \<and> set (correlatedModules (calculateCrossSignalBonus b))
                 = d_module ` set (recentDetections b))
        \<and> (card (d_module ` set (recentDetections b)) = 1 \<longrightarrow>
             calculateCrossSignalBonus b = \<lparr> bonus = 0, correlatedModules = [] \<rparr>))"
proof -
  have "2 \<le> length (recentDetections b) \<Longrightarrow> 1 \<le> card (d_module ` set (recentDetections b))"
  proof -
    assume "2 \<le> length (recentDetections b)"
    then have "set (recentDetections b) \<noteq> {}" by auto
    then have "d_module ` set (recentDetections b) \<noteq> {}" by simp
    then have "card (d_module ` set (recentDetections b)) \<noteq> 0" by simp
    then show ?thesis by linarith
  qed
  then show ?thesis
    by (simp add: calculateCrossSignalBonus_def Let_def length_uniqueInOrder set_uniqueInOrder)
qed

theorem calculateCrossSignalBonus_table_witness:
  "calculateCrossSignalBonus \<lparr> b_playerId = ''p'', createdAt = 0, eventCount = 0,
      b_metrics = Map.empty, recentDetections = [] \<rparr> = \<lparr> bonus = 0, correlatedModules = [] \<rparr>
   \<and> calculateCrossSignalBonus \<lparr> b_playerId = ''p'', createdAt = 0, eventCount = 0,
      b_metrics = Map.empty, recentDetections =
        [\<lparr> d_module = ''A'', d_confidence = 0.5, d_timestamp = 1 \<rparr>,
         \<lparr> d_module = ''A'', d_confidence = 0.5, d_timestamp = 2 \<rparr>,
         \<lparr> d_module = ''A'', d_confidence = 0.5, d_timestamp = 3 \<rparr>] \<rparr>
       = \<lparr> bonus = 0, correlatedModules = [] \<rparr>
   \<and> bonus (calculateCrossSignalBonus \<lparr> b_playerId = ''p'', createdAt = 0, eventCount = 0,
      b_metrics = Map.empty, recentDetections =
        [\<lparr> d_module = ''A'', d_confidence = 0.5, d_timestamp = 1 \<rparr>,
         \<lparr> d_module = ''B'', d_confidence = 0.5, d_timestamp = 2 \<rparr>] \<rparr>) = 8
   \<and> bonus (calculateCrossSignalBonus \<lparr> b_playerId = ''p'', createdAt = 0, eventCount = 0,
      b_metrics = Map.empty, recentDetections =
        [\<lparr> d_module = ''A'', d_confidence = 0.5, d_timestamp = 1 \<rparr>,
         \<lparr> d_module = ''B'', d_confidence = 0.5, d_timestamp = 2 \<rparr>,
         \<lparr> d_module = ''C'', d_confidence = 0.5, d_timestamp = 3 \<rparr>] \<rparr>) = 15"
  using calculateCrossSignalBonus_table [of "\<lparr> b_playerId = ''p'', createdAt = 0, eventCount = 0,
      b_metrics = Map.empty, recentDetections = [] \<rparr>"]
    calculateCrossSignalBonus_table [of "\<lparr> b_playerId = ''p'', createdAt = 0, eventCount = 0,
      b_metrics = Map.empty, recentDetections =
        [\<lparr> d_module = ''A'', d_confidence = 0.5, d_timestamp = 1 \<rparr>,
         \<lparr> d_module = ''A'', d_confidence = 0.5, d_timestamp = 2 \<rparr>,
         \<lparr> d_module = ''A'', d_confidence = 0.5, d_timestamp = 3 \<rparr>] \<rparr>"]
    calculateCrossSignalBonus_table [of "\<lparr> b_playerId = ''p'', createdAt = 0, eventCount = 0,
      b_metrics = Map.empty, recentDetections =
        [\<lparr> d_module = ''A'', d_confidence = 0.5, d_timestamp = 1 \<rparr>,
         \<lparr> d_module = ''B'', d_confidence = 0.5, d_timestamp = 2 \<rparr>] \<rparr>"]
    calculateCrossSignalBonus_table [of "\<lparr> b_playerId = ''p'', createdAt = 0, eventCount = 0,
      b_metrics = Map.empty, recentDetections =
        [\<lparr> d_module = ''A'', d_confidence = 0.5, d_timestamp = 1 \<rparr>,
         \<lparr> d_module = ''B'', d_confidence = 0.5, d_timestamp = 2 \<rparr>,
         \<lparr> d_module = ''C'', d_confidence = 0.5, d_timestamp = 3 \<rparr>] \<rparr>"]
  by (simp add: card_insert_if)

text \<open>
  C6. With the engine ready, \<open>resolveAction\<close> returns \<open>permanent_ban\<close> exactly when the
  confidence reaches \<open>autobanConfidence\<close>, otherwise \<open>shadow_ban\<close> exactly when it reaches
  \<open>shadowbanConfidence\<close>, and \<open>flag\<close> in every remaining case, below \<open>flagConfidence\<close>
  included; with the defaults \<open>0.90\<close>, \<open>0.70\<close>, \<open>0.50\<close> and \<open>0.10\<close> give \<open>permanent_ban\<close>,
  \<open>shadow_ban\<close>, \<open>flag\<close> and \<open>flag\<close>. No input, ready or not, gives \<open>temporary_ban\<close> or
  \<open>hardware_ban\<close>.
\<close>

theorem resolveAction_tiers:
  "(getPipelineState st AND 1 \<noteq> 0 \<longrightarrow>
      (resolveAction st c cfg = permanent_ban
         \<longleftrightarrow> c \<ge> autobanConfidence (config_or_default cfg))
      \<and> (resolveAction st c cfg = shadow_ban
         \<longleftrightarrow> \<not> c \<ge> autobanConfidence (config_or_default cfg)
             \<and> c \<ge> shadowbanConfidence (config_or_default cfg))
      \<and> (resolveAction st c cfg = flag
         \<longleftrightarrow> \<not> c \<ge> autobanConfidence (config_or_default cfg)
             \<and> \<not> c \<ge> shadowbanConfidence (config_or_default cfg))
      \<and> resolveAction st 0.90 None = permanent_ban
      \<and> resolveAction st 0.70 None = shadow_ban
      \<and> resolveAction st 0.50 None = flag
      \<and> resolveAction st 0.10 None = flag)
   \<and> resolveAction st c cfg \<noteq> temporary_ban
   \<and> resolveAction st c cfg \<noteq> hardware_ban"
  by (simp add: resolveAction_def getPipelineState_def Let_def config_or_default_def
      DEFAULT_CONFIG_def)

theorem resolveAction_tiers_witness:
  "getPipelineState \<lparr> pipelineToken = 3, playerBaselines = Map.empty, clock = sconst 0 \<rparr>
     AND 1 \<noteq> 0
   \<and> resolveAction \<lparr> pipelineToken = 3, playerBaselines = Map.empty, clock = sconst 0 \<rparr>
        0.90 None = permanent_ban
   \<and> resolveAction \<lparr> pipelineToken = 3, playerBaselines = Map.empty, clock = sconst 0 \<rparr>
        0.2 (Some (DEFAULT_CONFIG\<lparr>shadowbanConfidence := 0.1\<rparr>)) = shadow_ban"
  using resolveAction_tiers
    [of "\<lparr> pipelineToken = 3, playerBaselines = Map.empty, clock = sconst 0 \<rparr>" "0.2"
        "Some (DEFAULT_CONFIG\<lparr>shadowbanConfidence := 0.1\<rparr>)"]
  by (simp add: getPipelineState_def config_or_default_def DEFAULT_CONFIG_def)

text \<open>
  C7. Whenever bit \<open>0x1\<close> of the pipeline state is clear, \<open>processTelemetry\<close> returns the
  empty sequence and leaves the module state as it was: no baseline is created or
  modified and the clock is not read. The same holds with any registry in place of
  \<open>MODULES\<close> and any observer, so no handler and no observer is invoked.
\<close>

theorem processTelemetry_not_ready:
  "getPipelineState st AND 1 = 0 \<Longrightarrow>
     processTelemetry cb event cfg st = ([], st)
     \<and> (\<forall>mods. processTelemetry_with mods cb event cfg st = ([], st))"
  by (simp add: processTelemetry_def processTelemetry_with_def)

theorem processTelemetry_not_ready_witness:
  "getPipelineState \<lparr> pipelineToken = 0, playerBaselines = Map.empty, clock = sconst 0 \<rparr>
     AND 1 = 0
   \<and> processTelemetry None
        \<lparr> playerId = ''p1'', sessionId = ''s1'', lobbyId = ''l1'', matchId = ''m1'',
          timestamp = 0, eventType = aim_data,
          data = [''snapAngle'' \<mapsto> 150, ''timeToTarget'' \<mapsto> 50] \<rparr>
        None \<lparr> pipelineToken = 0, playerBaselines = Map.empty, clock = sconst 0 \<rparr>
       = ([], \<lparr> pipelineToken = 0, playerBaselines = Map.empty, clock = sconst 0 \<rparr>)"
  using processTelemetry_not_ready
    [of "\<lparr> pipelineToken = 0, playerBaselines = Map.empty, clock = sconst 0 \<rparr>" None
        "\<lparr> playerId = ''p1'', sessionId = ''s1'', lobbyId = ''l1'', matchId = ''m1'',
          timestamp = 0, eventType = aim_data,
          data = [''snapAngle'' \<mapsto> 150, ''timeToTarget'' \<mapsto> 50] \<rparr>" None]
  by (simp add: getPipelineState_def)

text \<open>
  C8. With the engine ready, let a handler of the registry throw, in the state the
  handlers registered before it have left. The exception is caught: the handlers
  registered after it still run, in order, from the state the throwing handler left, and
  the returned sequence is the results of the earlier handlers followed by the results
  of the later ones; nothing is dropped and the batch is not aborted.
\<close>

theorem dispatch_failure_isolation:
  assumes "getPipelineState st AND 1 \<noteq> 0"
    and "dispatch pre cb event cfg [] st = (rs1, st1)"
    and "handler bad event cfg st1 = (Inl err, st2)"
    and "dispatch post cb event cfg [] st2 = (rs2, st3)"
  shows "processTelemetry_with (pre @ bad # post) cb event cfg st = (rs1 @ rs2, st3)"
proof -
  have "dispatch (pre @ bad # post) cb event cfg [] st = dispatch (bad # post) cb event cfg rs1 st1"
    using assms(2) by (simp add: dispatch_append)
  also have "\<dots> = dispatch post cb event cfg rs1 st2"
    using assms(3) by simp
  also have "\<dots> = (rs1 @ rs2, st3)"
    using assms(4) dispatch_results [of post cb event cfg rs1 st2] by simp
  finally show ?thesis
    using assms(1) by (simp add: processTelemetry_with_def)
qed

theorem dispatch_failure_isolation_witness:
  "\<exists>r st'.
     processTelemetry_with
       (\<lparr> name = ''Faulty'', handler = (\<lambda>event cfg st. (Inl (JsError ''boom''), st)) \<rparr> # MODULES)
       None
       \<lparr> playerId = ''p1'', sessionId = ''s1'', lobbyId = ''l1'', matchId = ''m1'',
         timestamp = 0, eventType = aim_data,
         data = [''snapAngle'' \<mapsto> 150, ''timeToTarget'' \<mapsto> 50] \<rparr>
       None \<lparr> pipelineToken = 1, playerBaselines = Map.empty, clock = sconst 0 \<rparr>
       = ([r], st')
     \<and> module r = ''AimAnalysis'' \<and> confidence r = 0.55"
proof -
  let ?ev = "\<lparr> playerId = ''p1'', sessionId = ''s1'', lobbyId = ''l1'', matchId = ''m1'',
               timestamp = 0, eventType = aim_data,
               data = [''snapAngle'' \<mapsto> 150, ''timeToTarget'' \<mapsto> 50] \<rparr>"
  let ?st = "\<lparr> pipelineToken = 1, playerBaselines = Map.empty, clock = sconst 0 \<rparr>"
  let ?bad = "\<lparr> name = ''Faulty'',
                handler = (\<lambda>event cfg st. (Inl (JsError ''boom''), st)) \<rparr>"
  have ready: "getPipelineState ?st AND 1 \<noteq> 0" by (simp add: getPipelineState_def)
  obtain r st' where r: "dispatch MODULES None ?ev None [] ?st = ([r], st')"
      "module r = ''AimAnalysis''" "confidence r = 0.55"
    using dispatch_MODULES_aim_scenario [of ?st ?ev None None] ready by auto
  have pre: "dispatch [] None ?ev None [] ?st = ([], ?st)" by simp
  have bad: "handler ?bad ?ev None ?st = (Inl (JsError ''boom''), ?st)" by simp
  from dispatch_failure_isolation [OF ready pre bad r(1)]
  have "processTelemetry_with (?bad # MODULES) None ?ev None ?st = ([r], st')" by simp
  with r show ?thesis by blast
qed

text \<open>
  C9 (as amended). Replaying a sequence of telemetry events against a freshly initialized
  engine gives the same sequences of detection results in any two runs whose wall-clock
  readings (the values \<open>Date.now()\<close> returns, in the order it is called) are the same up
  to a constant offset. The results do depend on those readings: they decide which
  recent detections the correlation window still holds.
\<close>

theorem replay_reproducible_up_to_clock_shift:
  "replay cb cfg events (freshEngine response (smap (\<lambda>t. t + s) clk))
     = replay cb cfg events (freshEngine response clk)"
  by (simp add: freshEngine_shift replay_shift)

theorem replay_reproducible_up_to_clock_shift_witness:
  "map (map confidence) (replay None None
     [\<lparr> playerId = ''p1'', sessionId = ''s1'', lobbyId = ''l1'', matchId = ''m1'',
        timestamp = 0, eventType = aim_data,
        data = [''snapAngle'' \<mapsto> 150, ''timeToTarget'' \<mapsto> 50] \<rparr>,
      \<lparr> playerId = ''p1'', sessionId = ''s1'', lobbyId = ''l1'', matchId = ''m1'',
        timestamp = 1, eventType = input_data,
        data = [''inputEntropy'' \<mapsto> 0.1, ''timingVariance'' \<mapsto> 0.1] \<rparr>,
      \<lparr> playerId = ''p1'', sessionId = ''s1'', lobbyId = ''l1'', matchId = ''m1'',
        timestamp = 2, eventType = aim_data,
        data = [''snapAngle'' \<mapsto> 150, ''timeToTarget'' \<mapsto> 50] \<rparr>]
     (freshEngine False (smap (\<lambda>t. t + 86400000) (sconst 0)))) = [[0.55], [0.55], [0.63]]"
  using replay_reproducible_up_to_clock_shift [of None None
     "[\<lparr> playerId = ''p1'', sessionId = ''s1'', lobbyId = ''l1'', matchId = ''m1'',
        timestamp = 0, eventType = aim_data,
        data = [''snapAngle'' \<mapsto> 150, ''timeToTarget'' \<mapsto> 50] \<rparr>,
      \<lparr> playerId = ''p1'', sessionId = ''s1'', lobbyId = ''l1'', matchId = ''m1'',
        timestamp = 1, eventType = input_data,
        data = [''inputEntropy'' \<mapsto> 0.1, ''timingVariance'' \<mapsto> 0.1] \<rparr>,
      \<lparr> playerId = ''p1'', sessionId = ''s1'', lobbyId = ''l1'', matchId = ''m1'',
        timestamp = 2, eventType = aim_data,
        data = [''snapAngle'' \<mapsto> 150, ''timeToTarget'' \<mapsto> 50] \<rparr>]"
     False 86400000 "sconst 0"]
    replay_steady_clock
  by (simp only:)

text \<open>
  C9 as stated fails: the same three events (an aim detection, an input detection, the
  aim event again) replayed against a fresh engine give a third detection of confidence
  \<open>0.63\<close> when all of them are processed within the same millisecond, and of confidence
  \<open>0.55\<close> when they are processed 100 seconds apart (\<open>Date.now()\<close> reads \<open>0\<close> three times
  during the first event, \<open>100000\<close> twice during the second and \<open>200000\<close> from then on),
  because the earlier detections have then left the 60-second correlation window.
\<close>

theorem replay_wall_clock_counterexample:
  "replay None None
     [\<lparr> playerId = ''p1'', sessionId = ''s1'', lobbyId = ''l1'', matchId = ''m1'',
        timestamp = 0, eventType = aim_data,
        data = [''snapAngle'' \<mapsto> 150, ''timeToTarget'' \<mapsto> 50] \<rparr>,
      \<lparr> playerId = ''p1'', sessionId = ''s1'', lobbyId = ''l1'', matchId = ''m1'',
        timestamp = 1, eventType = input_data,
        data = [''inputEntropy'' \<mapsto> 0.1, ''timingVariance'' \<mapsto> 0.1] \<rparr>,
      \<lparr> playerId = ''p1'', sessionId = ''s1'', lobbyId = ''l1'', matchId = ''m1'',
        timestamp = 2, eventType = aim_data,
        data = [''snapAngle'' \<mapsto> 150, ''timeToTarget'' \<mapsto> 50] \<rparr>]
     (freshEngine False (sconst 0))
   \<noteq> replay None None
     [\<lparr> playerId = ''p1'', sessionId = ''s1'', lobbyId = ''l1'', matchId = ''m1'',
        timestamp = 0, eventType = aim_data,
        data = [''snapAngle'' \<mapsto> 150, ''timeToTarget'' \<mapsto> 50] \<rparr>,
      \<lparr> playerId = ''p1'', sessionId = ''s1'', lobbyId = ''l1'', matchId = ''m1'',
        timestamp = 1, eventType = input_data,
        data = [''inputEntropy'' \<mapsto> 0.1, ''timingVariance'' \<mapsto> 0.1] \<rparr>,
      \<lparr> playerId = ''p1'', sessionId = ''s1'', lobbyId = ''l1'', matchId = ''m1'',
        timestamp = 2, eventType = aim_data,
        data = [''snapAngle'' \<mapsto> 150, ''timeToTarget'' \<mapsto> 50] \<rparr>]
     (freshEngine False (0 ## 0 ## 0 ## 100000 ## 100000 ## sconst 200000))
   \<and> map (map confidence) (replay None None
     [\<lparr> playerId = ''p1'', sessionId = ''s1'', lobbyId = ''l1'', matchId = ''m1'',
        timestamp = 0, eventType = aim_data,
        data = [''snapAngle'' \<mapsto> 150, ''timeToTarget'' \<mapsto> 50] \<rparr>,
      \<lparr> playerId = ''p1'', sessionId = ''s1'', lobbyId = ''l1'', matchId = ''m1'',
        timestamp = 1, eventType = input_data,
        data = [''inputEntropy'' \<mapsto> 0.1, ''timingVariance'' \<mapsto> 0.1] \<rparr>,
      \<lparr> playerId = ''p1'', sessionId = ''s1'', lobbyId = ''l1'', matchId = ''m1'',
        timestamp = 2, eventType = aim_data,
        data = [''snapAngle'' \<mapsto> 150, ''timeToTarget'' \<mapsto> 50] \<rparr>]
     (freshEngine False (sconst 0))) = [[0.55], [0.55], [0.63]]
   \<and> map (map confidence) (replay None None
     [\<lparr> playerId = ''p1'', sessionId = ''s1'', lobbyId = ''l1'', matchId = ''m1'',
        timestamp = 0, eventType = aim_data,
        data = [''snapAngle'' \<mapsto> 150, ''timeToTarget'' \<mapsto> 50] \<rparr>,
      \<lparr> playerId = ''p1'', sessionId = ''s1'', lobbyId = ''l1'', matchId = ''m1'',
        timestamp = 1, eventType = input_data,
        data = [''inputEntropy'' \<mapsto> 0.1, ''timingVariance'' \<mapsto> 0.1] \<rparr>,
      \<lparr> playerId = ''p1'', sessionId = ''s1'', lobbyId = ''l1'', matchId = ''m1'',
        timestamp = 2, eventType = aim_data,
        data = [''snapAngle'' \<mapsto> 150, ''timeToTarget'' \<mapsto> 50] \<rparr>]
     (freshEngine False (0 ## 0 ## 0 ## 100000 ## 100000 ## sconst 200000))) = [[0.55], [0.55], [0.55]]"
proof -
  have "replay None None
     [\<lparr> playerId = ''p1'', sessionId = ''s1'', lobbyId = ''l1'', matchId = ''m1'',
        timestamp = 0, eventType = aim_data,
        data = [''snapAngle'' \<mapsto> 150, ''timeToTarget'' \<mapsto> 50] \<rparr>,
      \<lparr> playerId = ''p1'', sessionId = ''s1'', lobbyId = ''l1'', matchId = ''m1'',
        timestamp = 1, eventType = input_data,
        data = [''inputEntropy'' \<mapsto> 0.1, ''timingVariance'' \<mapsto> 0.1] \<rparr>,
      \<lparr> playerId = ''p1'', sessionId = ''s1'', lobbyId = ''l1'', matchId = ''m1'',
        timestamp = 2, eventType = aim_data,
        data = [''snapAngle'' \<mapsto> 150, ''timeToTarget'' \<mapsto> 50] \<rparr>]
     (freshEngine False (sconst 0))
     \<noteq> replay None None
     [\<lparr> playerId = ''p1'', sessionId = ''s1'', lobbyId = ''l1'', matchId = ''m1'',
        timestamp = 0, eventType = aim_data,
        data = [''snapAngle'' \<mapsto> 150, ''timeToTarget'' \<mapsto> 50] \<rparr>,
      \<lparr> playerId = ''p1'', sessionId = ''s1'', lobbyId = ''l1'', matchId = ''m1'',
        timestamp = 1, eventType = input_data,
        data = [''inputEntropy'' \<mapsto> 0.1, ''timingVariance'' \<mapsto> 0.1] \<rparr>,
      \<lparr> playerId = ''p1'', sessionId = ''s1'', lobbyId = ''l1'', matchId = ''m1'',
        timestamp = 2, eventType = aim_data,
        data = [''snapAngle'' \<mapsto> 150, ''timeToTarget'' \<mapsto> 50] \<rparr>]
     (freshEngine False (0 ## 0 ## 0 ## 100000 ## 100000 ## sconst 200000))"
  proof
    assume eq: "replay None None
     [\<lparr> playerId = ''p1'', sessionId = ''s1'', lobbyId = ''l1'', matchId = ''m1'',
        timestamp = 0, eventType = aim_data,
        data = [''snapAngle'' \<mapsto> 150, ''timeToTarget'' \<mapsto> 50] \<rparr>,
      \<lparr> playerId = ''p1'', sessionId = ''s1'', lobbyId = ''l1'', matchId = ''m1'',
        timestamp = 1, eventType = input_data,
        data = [''inputEntropy'' \<mapsto> 0.1, ''timingVariance'' \<mapsto> 0.1] \<rparr>,
      \<lparr> playerId = ''p1'', sessionId = ''s1'', lobbyId = ''l1'', matchId = ''m1'',
        timestamp = 2, eventType = aim_data,
        data = [''snapAngle'' \<mapsto> 150, ''timeToTarget'' \<mapsto> 50] \<rparr>]
     (freshEngine False (sconst 0))
     = replay None None
     [\<lparr> playerId = ''p1'', sessionId = ''s1'', lobbyId = ''l1'', matchId = ''m1'',
        timestamp = 0, eventType = aim_data,
        data = [''snapAngle'' \<mapsto> 150, ''timeToTarget'' \<mapsto> 50] \<rparr>,
      \<lparr> playerId = ''p1'', sessionId = ''s1'', lobbyId = ''l1'', matchId = ''m1'',
        timestamp = 1, eventType = input_data,
        data = [''inputEntropy'' \<mapsto> 0.1, ''timingVariance'' \<mapsto> 0.1] \<rparr>,
      \<lparr> playerId = ''p1'', sessionId = ''s1'', lobbyId = ''l1'', matchId = ''m1'',
        timestamp = 2, eventType = aim_data,
        data = [''snapAngle'' \<mapsto> 150, ''timeToTarget'' \<mapsto> 50] \<rparr>]
     (freshEngine False (0 ## 0 ## 0 ## 100000 ## 100000 ## sconst 200000))"
    have "[[0.55], [0.55], [0.63]] = [[0.55], [0.55], [0.55 :: real]]"
      using replay_steady_clock replay_slow_clock by (simp only: eq)
    then show False by simp
  qed
  then show ?thesis
    using replay_steady_clock replay_slow_clock by (intro conjI)
qed

text \<open>
  C10. Whatever the event, the configuration and the state, a detection result returned
  by a module (\<open>analyzeAim\<close>, \<open>analyzeInput\<close>, \<open>analyzePackets\<close>, \<open>analyzeStats\<close>,
  \<open>analyzeBehavior\<close>) is returned only when the module's accumulated score has reached
  \<open>40\<close>, its confidence is \<open>min(score / 100, 0.99)\<close>, and so every result a handler of
  \<open>MODULES\<close> returns has a confidence between \<open>0.40\<close> and \<open>0.99\<close>.
\<close>

theorem detection_confidence_range:
  "(analyzeAim event cfg st = (Some r, st') \<longrightarrow>
      40 \<le> snd (fst (snd (analyzeAim_scoring event cfg st)))
      \<and> confidence r = min (snd (fst (snd (analyzeAim_scoring event cfg st))) / 100) 0.99)
   \<and> (analyzeInput event cfg st = (Some r, st') \<longrightarrow>
      40 \<le> snd (fst (snd (analyzeInput_scoring event cfg st)))
      \<and> confidence r = min (snd (fst (snd (analyzeInput_scoring event cfg st))) / 100) 0.99)
   \<and> (analyzePackets event cfg st = (Some r, st') \<longrightarrow>
      40 \<le> snd (fst (snd (analyzePackets_scoring event cfg st)))
      \<and> confidence r = min (snd (fst (snd (analyzePackets_scoring event cfg st))) / 100) 0.99)
   \<and> (analyzeStats event cfg st = (Some r, st') \<longrightarrow>
      40 \<le> snd (fst (snd (analyzeStats_scoring event cfg st)))
      \<and> confidence r = min (snd (fst (snd (analyzeStats_scoring event cfg st))) / 100) 0.99)
   \<and> (analyzeBehavior event cfg st = (Some r, st') \<longrightarrow>
      40 \<le> snd (fst (snd (analyzeBehavior_scoring event cfg st)))
      \<and> confidence r = min (snd (fst (snd (analyzeBehavior_scoring event cfg st))) / 100) 0.99)
   \<and> (\<forall>m \<in> set MODULES. handler m event cfg st = (Inr (Some r), st') \<longrightarrow>
        0.40 \<le> confidence r \<and> confidence r \<le> 0.99)"
proof -
  have reg: "0.40 \<le> confidence r \<and> confidence r \<le> 0.99"
    if "m \<in> set MODULES" and "handler m event cfg st = (Inr (Some r), st')" for m
  proof -
    from that have "analyzeAim event cfg st = (Some r, st') \<or> analyzeInput event cfg st = (Some r, st')
        \<or> analyzePackets event cfg st = (Some r, st') \<or> analyzeStats event cfg st = (Some r, st')
        \<or> analyzeBehavior event cfg st = (Some r, st')"
      by (auto simp: MODULES_def returns_Some)
    then have "\<exists>score::real. 40 \<le> score \<and> confidence r = min (score / 100) 0.99"
    proof (elim disjE)
      assume "analyzeAim event cfg st = (Some r, st')"
      from analyzeAim_confidence [OF this] show ?thesis by (intro exI)
    next
      assume "analyzeInput event cfg st = (Some r, st')"
      from analyzeInput_confidence [OF this] show ?thesis by (intro exI)
    next
      assume "analyzePackets event cfg st = (Some r, st')"
      from analyzePackets_confidence [OF this] show ?thesis by (intro exI)
    next
      assume "analyzeStats event cfg st = (Some r, st')"
      from analyzeStats_confidence [OF this] show ?thesis by (intro exI)
    next
      assume "analyzeBehavior event cfg st = (Some r, st')"
      from analyzeBehavior_confidence [OF this] show ?thesis by (intro exI)
    qed
    then obtain score :: real where "40 \<le> score" "confidence r = min (score / 100) 0.99"
      by (elim exE conjE)
    then show ?thesis using confidence_range [of score] by simp
  qed
  show ?thesis
    using analyzeAim_confidence [of event cfg st r st']
      analyzeInput_confidence [of event cfg st r st']
      analyzePackets_confidence [of event cfg st r st']
      analyzeStats_confidence [of event cfg st r st']
      analyzeBehavior_confidence [of event cfg st r st'] reg
    by blast
qed

theorem detection_confidence_range_witness:
  "(\<exists>r st'. analyzeAim
        \<lparr> playerId = ''p1'', sessionId = ''s1'', lobbyId = ''l1'', matchId = ''m1'',
          timestamp = 0, eventType = aim_data,
          data = [''snapAngle'' \<mapsto> 150, ''timeToTarget'' \<mapsto> 50] \<rparr>
        None \<lparr> pipelineToken = 1, playerBaselines = Map.empty, clock = sconst 0 \<rparr>
        = (Some r, st') \<and> 0.40 \<le> confidence r \<and> confidence r \<le> 0.99)
   \<and> (\<exists>r st'. analyzeInput
        \<lparr> playerId = ''p1'', sessionId = ''s1'', lobbyId = ''l1'', matchId = ''m1'',
          timestamp = 0, eventType = input_data,
          data = [''inputEntropy'' \<mapsto> 0.1, ''timingVariance'' \<mapsto> 0.1] \<rparr>
        None \<lparr> pipelineToken = 1, playerBaselines = Map.empty, clock = sconst 0 \<rparr>
        = (Some r, st') \<and> 0.40 \<le> confidence r \<and> confidence r \<le> 0.99)
   \<and> (\<exists>r st'. analyzePackets
        \<lparr> playerId = ''p1'', sessionId = ''s1'', lobbyId = ''l1'', matchId = ''m1'',
          timestamp = 0, eventType = packet_data,
          data = [''burstCount'' \<mapsto> 20, ''suspiciousPayloads'' \<mapsto> 5] \<rparr>
        None \<lparr> pipelineToken = 1, playerBaselines = Map.empty, clock = sconst 0 \<rparr>
        = (Some r, st') \<and> 0.40 \<le> confidence r \<and> confidence r \<le> 0.99)
   \<and> (\<exists>r st'. analyzeStats
        \<lparr> playerId = ''p1'', sessionId = ''s1'', lobbyId = ''l1'', matchId = ''m1'',
          timestamp = 0, eventType = stats_data,
          data = [''winRate'' \<mapsto> 90, ''accuracyZScore'' \<mapsto> 4] \<rparr>
        None \<lparr> pipelineToken = 1, playerBaselines = Map.empty, clock = sconst 0 \<rparr>
        = (Some r, st') \<and> 0.40 \<le> confidence r \<and> confidence r \<le> 0.99)
   \<and> (\<exists>r st'. analyzeBehavior
        \<lparr> playerId = ''p1'', sessionId = ''s1'', lobbyId = ''l1'', matchId = ''m1'',
          timestamp = 0, eventType = behavior_data,
          data = [''wallTrackEvents'' \<mapsto> 6, ''cameraBehavior'' \<mapsto> 0.9] \<rparr>
        None \<lparr> pipelineToken = 1, playerBaselines = Map.empty, clock = sconst 0 \<rparr>
        = (Some r, st') \<and> 0.40 \<le> confidence r \<and> confidence r \<le> 0.99)"
proof -
  let ?st = "\<lparr> pipelineToken = 1, playerBaselines = Map.empty, clock = sconst 0 \<rparr>"
  have c1: "\<exists>r st'. analyzeAim
        \<lparr> playerId = ''p1'', sessionId = ''s1'', lobbyId = ''l1'', matchId = ''m1'',
          timestamp = 0, eventType = aim_data,
          data = [''snapAngle'' \<mapsto> 150, ''timeToTarget'' \<mapsto> 50] \<rparr>
        None ?st = (Some r, st') \<and> 0.40 \<le> confidence r \<and> confidence r \<le> 0.99"
  proof -
    let ?ev = "\<lparr> playerId = ''p1'', sessionId = ''s1'', lobbyId = ''l1'', matchId = ''m1'',
          timestamp = 0, eventType = aim_data,
          data = [''snapAngle'' \<mapsto> 150, ''timeToTarget'' \<mapsto> 50] \<rparr>"
    let ?m = "\<lparr> name = ''AimAnalysis'', handler = returns analyzeAim \<rparr>"
    obtain r st' where r: "analyzeAim ?ev None ?st = (Some r, st')"
      using sample_detections(1) [THEN fst_not_None] by blast
    have m: "?m \<in> set MODULES" by (simp add: MODULES_def)
    have h: "handler ?m ?ev None ?st = (Inr (Some r), st')"
      using r by (simp add: returns_def)
    from detection_confidence_range [of ?ev None ?st r st'] m h
    have "0.40 \<le> confidence r \<and> confidence r \<le> 0.99" by blast
    with r show ?thesis by blast
  qed
  have c2: "\<exists>r st'. analyzeInput
        \<lparr> playerId = ''p1'', sessionId = ''s1'', lobbyId = ''l1'', matchId = ''m1'',
          timestamp = 0, eventType = input_data,
          data = [''inputEntropy'' \<mapsto> 0.1, ''timingVariance'' \<mapsto> 0.1] \<rparr>
        None ?st = (Some r, st') \<and> 0.40 \<le> confidence r \<and> confidence r \<le> 0.99"
  proof -
    let ?ev = "\<lparr> playerId = ''p1'', sessionId = ''s1'', lobbyId = ''l1'', matchId = ''m1'',
          timestamp = 0, eventType = input_data,
          data = [''inputEntropy'' \<mapsto> 0.1, ''timingVariance'' \<mapsto> 0.1] \<rparr>"
    let ?m = "\<lparr> name = ''InputAnalysis'', handler = returns analyzeInput \<rparr>"
    obtain r st' where r: "analyzeInput ?ev None ?st = (Some r, st')"
      using sample_detections(2) [THEN fst_not_None] by blast
    have m: "?m \<in> set MODULES" by (simp add: MODULES_def)
    have h: "handler ?m ?ev None ?st = (Inr (Some r), st')"
      using r by (simp add: returns_def)
    from detection_confidence_range [of ?ev None ?st r st'] m h
    have "0.40 \<le> confidence r \<and> confidence r \<le> 0.99" by blast
    with r show ?thesis by blast
  qed
  have c3: "\<exists>r st'. analyzePackets
        \<lparr> playerId = ''p1'', sessionId = ''s1'', lobbyId = ''l1'', matchId = ''m1'',
          timestamp = 0, eventType = packet_data,
          data = [''burstCount'' \<mapsto> 20, ''suspiciousPayloads'' \<mapsto> 5] \<rparr>
        None ?st = (Some r, st') \<and> 0.40 \<le> confidence r \<and> confidence r \<le> 0.99"
  proof -
    let ?ev = "\<lparr> playerId = ''p1'', sessionId = ''s1'', lobbyId = ''l1'', matchId = ''m1'',
          timestamp = 0, eventType = packet_data,
          data = [''burstCount'' \<mapsto> 20, ''suspiciousPayloads'' \<mapsto> 5] \<rparr>"
    let ?m = "\<lparr> name = ''PacketAnalysis'', handler = returns analyzePackets \<rparr>"
    obtain r st' where r: "analyzePackets ?ev None ?st = (Some r, st')"
      using sample_detections(3) [THEN fst_not_None] by blast
    have m: "?m \<in> set MODULES" by (simp add: MODULES_def)
    have h: "handler ?m ?ev None ?st = (Inr (Some r), st')"
      using r by (simp add: returns_def)
    from detection_confidence_range [of ?ev None ?st r st'] m h
    have "0.40 \<le> confidence r \<and> confidence r \<le> 0.99" by blast
    with r show ?thesis by blast
  qed
  have c4: "\<exists>r st'. analyzeStats
        \<lparr> playerId = ''p1'', sessionId = ''s1'', lobbyId = ''l1'', matchId = ''m1'',
          timestamp = 0, eventType = stats_data,
          data = [''winRate'' \<mapsto> 90, ''accuracyZScore'' \<mapsto> 4] \<rparr>
        None ?st = (Some r, st') \<and> 0.40 \<le> confidence r \<and> confidence r \<le> 0.99"
  proof -
    let ?ev = "\<lparr> playerId = ''p1'', sessionId = ''s1'', lobbyId = ''l1'', matchId = ''m1'',
          timestamp = 0, eventType = stats_data,
          data = [''winRate'' \<mapsto> 90, ''accuracyZScore'' \<mapsto> 4] \<rparr>"
    let ?m = "\<lparr> name = ''StatisticalAnalysis'', handler = returns analyzeStats \<rparr>"
    obtain r st' where r: "analyzeStats ?ev None ?st = (Some r, st')"
      using sample_detections(4) [THEN fst_not_None] by blast
    have m: "?m \<in> set MODULES" by (simp add: MODULES_def)
    have h: "handler ?m ?ev None ?st = (Inr (Some r), st')"
      using r by (simp add: returns_def)
    from detection_confidence_range [of ?ev None ?st r st'] m h
    have "0.40 \<le> confidence r \<and> confidence r \<le> 0.99" by blast
    with r show ?thesis by blast
  qed
  have c5: "\<exists>r st'. analyzeBehavior
        \<lparr> playerId = ''p1'', sessionId = ''s1'', lobbyId = ''l1'', matchId = ''m1'',
          timestamp = 0, eventType = behavior_data,
          data = [''wallTrackEvents'' \<mapsto> 6, ''cameraBehavior'' \<mapsto> 0.9] \<rparr>
        None ?st = (Some r, st') \<and> 0.40 \<le> confidence r \<and> confidence r \<le> 0.99"
  proof -
    let ?ev = "\<lparr> playerId = ''p1'', sessionId = ''s1'', lobbyId = ''l1'', matchId = ''m1'',
          timestamp = 0, eventType = behavior_data,
          data = [''wallTrackEvents'' \<mapsto> 6, ''cameraBehavior'' \<mapsto> 0.9] \<rparr>"
    let ?m = "\<lparr> name = ''BehavioralAnalysis'', handler = returns analyzeBehavior \<rparr>"
    obtain r st' where r: "analyzeBehavior ?ev None ?st = (Some r, st')"
      using sample_detections(5) [THEN fst_not_None] by blast
    have m: "?m \<in> set MODULES" by (simp add: MODULES_def)
    have h: "handler ?m ?ev None ?st = (Inr (Some r), st')"
      using r by (simp add: returns_def)
    from detection_confidence_range [of ?ev None ?st r st'] m h
    have "0.40 \<le> confidence r \<and> confidence r \<le> 0.99" by blast
    with r show ?thesis by blast
  qed
  from c1 c2 c3 c4 c5 show ?thesis by (intro conjI)
qed

end
